theory Spec2Isabelle
  imports Main "HOL-Library.Word"
begin

section \<open>JavaScript values at the service boundary\<close>

text \<open>
  The service is an Express application with two conversion routes, \<^verbatim>\<open>POST /convert\<close>
  (multipart upload) and \<^verbatim>\<open>POST /convert-raw\<close> (raw body).  The repository holds three
  builds of it, one per rasterizer: \<^verbatim>\<open>pdf-to-png-converter\<close> (in process),
  \<^verbatim>\<open>pdfjs-dist\<close> drawing on a \<^verbatim>\<open>canvas\<close>, and \<^verbatim>\<open>pdf-poppler\<close> (an external process
  working on temporary files).  Each handler is embedded as a function from the request,
  the readings of \<^verbatim>\<open>Date.now()\<close> and the rasterizer (a parameter: it is a third-party
  library) to the response and the list of effects the handler performed, in order.
\<close>

type_synonym bytes = "8 word list"

text \<open>
  The values \<^verbatim>\<open>req.body\<close> and \<^verbatim>\<open>req.file.buffer\<close> can hold: \<^verbatim>\<open>undefined\<close>, the empty
  object \<^verbatim>\<open>{}\<close>, or a \<^verbatim>\<open>Buffer\<close>.
\<close>

datatype js_value = JUndefined | JObject | JBuffer bytes

text \<open>\<^verbatim>\<open>!v\<close> is false for every object, an empty \<^verbatim>\<open>Buffer\<close> included.\<close>

fun truthy :: "js_value \<Rightarrow> bool" where
  "truthy JUndefined = False"
| "truthy JObject = True"
| "truthy (JBuffer d) = True"

text \<open>The \<^verbatim>\<open>length\<close> property: \<^verbatim>\<open>undefined\<close> (here \<open>None\<close>) on a plain object.\<close>

fun js_length :: "js_value \<Rightarrow> nat option" where
  "js_length (JBuffer d) = Some (length d)"
| "js_length JObject = None"
| "js_length JUndefined = None"

text \<open>\<^verbatim>\<open>v?.length || 0\<close>, as the first log line of every handler computes it.\<close>

fun length_or_zero :: "js_value \<Rightarrow> nat" where
  "length_or_zero (JBuffer d) = length d"
| "length_or_zero JObject = 0"
| "length_or_zero JUndefined = 0"

text \<open>
  \<^verbatim>\<open>Number.prototype.toString\<close> on an integer: its decimal digits (for magnitudes below
  \<open>10\<^sup>2\<^sup>1\<close>, which buffer lengths and millisecond differences are).
\<close>

fun string_of_nat :: "nat \<Rightarrow> string" where
  "string_of_nat n =
     (if n < 10 then [char_of (48 + n)]
      else string_of_nat (n div 10) @ [char_of (48 + n mod 10)])"

declare string_of_nat.simps [simp del]

definition js_toString :: "int \<Rightarrow> string" where
  "js_toString i = (if i < 0 then ''-'' @ string_of_nat (nat (- i)) else string_of_nat (nat i))"

text \<open>A length inside a template literal: \<^verbatim>\<open>${v.length}\<close> prints \<^verbatim>\<open>undefined\<close> when there is none.\<close>

definition template_length :: "js_value \<Rightarrow> string" where
  "template_length v =
     (case js_length v of None \<Rightarrow> ''undefined'' | Some n \<Rightarrow> js_toString (int n))"

text \<open>A thrown \<^verbatim>\<open>Error\<close>, by its \<^verbatim>\<open>message\<close> (the only property the handlers read).\<close>

datatype js_error = Error string

fun message :: "js_error \<Rightarrow> string" where
  "message (Error m) = m"

text \<open>\<^verbatim>\<open>error.message || 'Unknown conversion error'\<close>: the empty string is falsy.\<close>

definition errorMessage :: "js_error \<Rightarrow> string" where
  "errorMessage e = (if message e = [] then ''Unknown conversion error'' else message e)"

text \<open>What \<^verbatim>\<open>undefined.toString()\<close> throws (V8's wording).\<close>

definition undefined_toString :: js_error where
  "undefined_toString = Error ''Cannot read properties of undefined (reading 'toString')''"

section \<open>Requests, responses, effects\<close>

record multer_file =
  buffer :: js_value

record request =
  headers :: "(string \<times> string) list"
  req_file :: "multer_file option"
  body :: js_value

text \<open>\<^verbatim>\<open>req.headers['x-correlation-id'] || 'unknown'\<close>.\<close>

definition correlationId :: "request \<Rightarrow> string" where
  "correlationId req =
     (case map_of (headers req) ''x-correlation-id'' of
        None \<Rightarrow> ''unknown''
      | Some v \<Rightarrow> if v = [] then ''unknown'' else v)"

datatype json = JsonString string | JsonNumber int

datatype payload = SendBuffer bytes | SendJson "(string \<times> json) list" | DefaultErrorPage

record response =
  status :: nat
  res_headers :: "(string \<times> string) list"
  sent :: payload

text \<open>\<^verbatim>\<open>res.status(code).json(obj)\<close>; only the headers a handler sets itself are recorded.\<close>

definition res_json :: "nat \<Rightarrow> (string \<times> json) list \<Rightarrow> response" where
  "res_json code obj = \<lparr>status = code, res_headers = [], sent = SendJson obj\<rparr>"

text \<open>\<^verbatim>\<open>res.set(hs); res.send(buf)\<close> with the default status.\<close>

definition res_send :: "(string \<times> string) list \<Rightarrow> bytes \<Rightarrow> response" where
  "res_send hs buf = \<lparr>status = 200, res_headers = hs, sent = SendBuffer buf\<rparr>"

text \<open>
  The options object both routes of the first build pass to \<^verbatim>\<open>pdfToPng\<close>: an object
  literal, kept as its properties in order, each with the value the source writes.
\<close>

datatype js_prop = PUndefined | PBoolean bool | PNumber int | PNumbers "nat list"

type_synonym pdf_to_png_options = "(string \<times> js_prop) list"

text \<open>An entry of the array \<^verbatim>\<open>pdfToPng\<close> resolves to; \<^verbatim>\<open>content\<close> is the encoded image.\<close>

record png_page =
  pageNumber :: nat
  content :: bytes

text \<open>The options object the third build passes to \<^verbatim>\<open>pdf.convert\<close>.\<close>

record poppler_options =
  format :: string
  out_dir :: string
  out_prefix :: string
  page :: nat
  scale :: nat
  single_file :: bool

text \<open>
  The effects a handler performs, in the order it performs them: console output, and the
  calls into the rasterizer libraries.
\<close>

datatype event =
    ConsoleLog string
  | ConsoleWarn string string
  | ConsoleError string string
  | PdfToPng js_value pdf_to_png_options
  | RequirePdfJs
  | GetDocument js_value
  | GetPage nat
  | GetViewport int
  | CreateCanvas int int
  | FillRect string int int int int
  | Render
  | ToBuffer string
  | PageCleanup
  | PdfDestroy
  | PopplerConvert string poppler_options

text \<open>
  The \<^verbatim>\<open>catch\<close> block, the same in all six handlers up to the log prefix: it reads the
  clock, logs, and answers 500 with a four-field body.  \<open>evs\<close> are the effects that
  happened before the throw.
\<close>

definition catch_block ::
  "string \<Rightarrow> string \<Rightarrow> int \<Rightarrow> int \<Rightarrow> event list \<Rightarrow> js_error \<Rightarrow> response \<times> event list" where
  "catch_block what cid startTime now evs e =
     (let processingTime = now - startTime
      in (res_json 500
            [(''error'', JsonString ''PDF conversion failed''),
             (''message'', JsonString (errorMessage e)),
             (''correlationId'', JsonString cid),
             (''processingTimeMs'', JsonNumber processingTime)],
          evs @ [ConsoleError
                   (''['' @ cid @ ''] '' @ what @ '' failed after '' @ js_toString processingTime @ ''ms:'')
                   (errorMessage e)]))"

text \<open>
  The object literal handed to \<^verbatim>\<open>res.set\<close>, the same in all six handlers; \<open>input\<close> is
  \<^verbatim>\<open>req.file.buffer\<close> or \<^verbatim>\<open>req.body\<close>.  Evaluating \<^verbatim>\<open>input.length.toString()\<close> throws when
  the input has no \<^verbatim>\<open>length\<close>.
\<close>

definition png_headers :: "string \<Rightarrow> js_value \<Rightarrow> bytes \<Rightarrow> int \<Rightarrow> js_error + (string \<times> string) list" where
  "png_headers cid input pngBuffer processingTime =
     (case js_length input of
        None \<Rightarrow> Inl undefined_toString
      | Some n \<Rightarrow>
          Inr [(''Content-Type'', ''image/png''),
               (''Content-Length'', js_toString (int (length pngBuffer))),
               (''X-Processing-Time-Ms'', js_toString processingTime),
               (''X-Correlation-Id'', cid),
               (''X-Original-Size'', js_toString (int n)),
               (''X-Converted-Size'', js_toString (int (length pngBuffer)))])"

section \<open>First build: \<^verbatim>\<open>pdf-to-png-converter\<close>\<close>

definition convert_options :: pdf_to_png_options where
  "convert_options =
     [(''disableFontFace'', PBoolean False),
      (''useSystemFonts'', PBoolean False),
      (''enableXfa'', PBoolean False),
      (''viewportScale'', PNumber 2),
      (''outputFilesFolder'', PUndefined),
      (''outputFolder'', PUndefined),
      (''pagesRange'', PNumbers [1]),
      (''strictPaging'', PBoolean False)]"

type_synonym pdf_to_png = "js_value \<Rightarrow> pdf_to_png_options \<Rightarrow> js_error + png_page list option"

text \<open>
  \<^verbatim>\<open>app.post('/convert', upload.single('pdf'), async (req, res) => ...)\<close>.  \<open>now k\<close> is the
  \<open>k\<close>-th reading of \<^verbatim>\<open>Date.now()\<close> the handler takes.  The library answers an
  \<^verbatim>\<open>Error\<close>, a falsy value (\<open>None\<close>) or an array of pages.
\<close>

definition post_convert :: "pdf_to_png \<Rightarrow> request \<Rightarrow> (nat \<Rightarrow> int) \<Rightarrow> response \<times> event list" where
  "post_convert pdfToPng req now =
     (let startTime = now 0;
          cid = correlationId req;
          buf = (case req_file req of None \<Rightarrow> JUndefined | Some f \<Rightarrow> buffer f);
          received = ConsoleLog (''['' @ cid @ ''] PDF conversion request received, size: ''
                                 @ js_toString (int (length_or_zero buf)) @ '' bytes'')
      in if req_file req = None \<or> \<not> truthy buf then
           (res_json 400 [(''error'', JsonString ''No PDF file provided''),
                          (''correlationId'', JsonString cid)],
            [received])
         else
           let starting = ConsoleLog (''['' @ cid @ ''] Starting PDF to PNG conversion...'');
               called = PdfToPng buf convert_options;
               evs = [received, starting, called];
               no_pages = catch_block ''Conversion'' cid startTime (now 1) evs
                            (Error ''No pages converted from PDF'')
           in case pdfToPng buf convert_options of
                Inl e \<Rightarrow> catch_block ''Conversion'' cid startTime (now 1) evs e
              | Inr None \<Rightarrow> no_pages
              | Inr (Some []) \<Rightarrow> no_pages
              | Inr (Some (first # others)) \<Rightarrow>
                  let pngBuffer = content first;
                      processingTime = now 1 - startTime;
                      successful = ConsoleLog
                        (''['' @ cid @ ''] Conversion successful: '' @ template_length buf
                         @ '' bytes PDF -> '' @ js_toString (int (length pngBuffer))
                         @ '' bytes PNG in '' @ js_toString processingTime @ ''ms'')
                  in case png_headers cid buf pngBuffer processingTime of
                       Inl e \<Rightarrow> catch_block ''Conversion'' cid startTime (now 2) (evs @ [successful]) e
                     | Inr hs \<Rightarrow> (res_send hs pngBuffer, evs @ [successful]))"

text \<open>\<^verbatim>\<open>app.post('/convert-raw', express.raw({type: 'application/pdf', limit: '10mb'}), ...)\<close>.\<close>

definition post_convert_raw :: "pdf_to_png \<Rightarrow> request \<Rightarrow> (nat \<Rightarrow> int) \<Rightarrow> response \<times> event list" where
  "post_convert_raw pdfToPng req now =
     (let startTime = now 0;
          cid = correlationId req;
          received = ConsoleLog (''['' @ cid @ ''] Raw PDF conversion request received, size: ''
                                 @ js_toString (int (length_or_zero (body req))) @ '' bytes'')
      in if \<not> truthy (body req) \<or> js_length (body req) = Some 0 then
           (res_json 400 [(''error'', JsonString ''No PDF data provided''),
                          (''correlationId'', JsonString cid)],
            [received])
         else
           let starting = ConsoleLog (''['' @ cid @ ''] Starting raw PDF to PNG conversion...'');
               called = PdfToPng (body req) convert_options;
               evs = [received, starting, called];
               no_pages = catch_block ''Raw conversion'' cid startTime (now 1) evs
                            (Error ''No pages converted from PDF'')
           in case pdfToPng (body req) convert_options of
                Inl e \<Rightarrow> catch_block ''Raw conversion'' cid startTime (now 1) evs e
              | Inr None \<Rightarrow> no_pages
              | Inr (Some []) \<Rightarrow> no_pages
              | Inr (Some (first # others)) \<Rightarrow>
                  let pngBuffer = content first;
                      processingTime = now 1 - startTime;
                      successful = ConsoleLog
                        (''['' @ cid @ ''] Raw conversion successful: '' @ template_length (body req)
                         @ '' bytes PDF -> '' @ js_toString (int (length pngBuffer))
                         @ '' bytes PNG in '' @ js_toString processingTime @ ''ms'')
                  in case png_headers cid (body req) pngBuffer processingTime of
                       Inl e \<Rightarrow> catch_block ''Raw conversion'' cid startTime (now 2) (evs @ [successful]) e
                     | Inr hs \<Rightarrow> (res_send hs pngBuffer, evs @ [successful]))"

section \<open>Second build: \<^verbatim>\<open>pdfjs-dist\<close> on a \<^verbatim>\<open>canvas\<close>\<close>

text \<open>
  The calls the second build makes into \<^verbatim>\<open>pdfjs-dist\<close> and \<^verbatim>\<open>canvas\<close>, as parameters:
  \<open>'d\<close> is a loaded document, \<open>'p\<close> a page, \<open>'c\<close> a canvas with its 2d context.  Viewport
  dimensions are taken as integers.  \<^verbatim>\<open>getDocument\<close> is always called with
  \<^verbatim>\<open>useWorkerFetch: false\<close>, \<^verbatim>\<open>isEvalSupported: false\<close>, \<^verbatim>\<open>useSystemFonts: true\<close> and
  \<^verbatim>\<open>disableWorker: true\<close>; only its \<^verbatim>\<open>data\<close> varies.
\<close>

record ('d, 'p, 'c) pdfjs_canvas =
  getDocument :: "js_value \<Rightarrow> js_error + 'd"
  numPages :: "'d \<Rightarrow> nat"
  getPage :: "'d \<Rightarrow> nat \<Rightarrow> js_error + 'p"
  getViewport :: "'p \<Rightarrow> int \<Rightarrow> int \<times> int"
  createCanvas :: "int \<Rightarrow> int \<Rightarrow> js_error + 'c"
  fillRect :: "'c \<Rightarrow> string \<Rightarrow> int \<Rightarrow> int \<Rightarrow> int \<Rightarrow> int \<Rightarrow> 'c"
  render :: "'p \<Rightarrow> 'c \<Rightarrow> js_error + 'c"
  toBuffer :: "'c \<Rightarrow> string \<Rightarrow> js_error + bytes"
  cleanup :: "'p \<Rightarrow> js_error option"
  destroy :: "'d \<Rightarrow> js_error option"

text \<open>
  \<^verbatim>\<open>initPdfJs\<close>: the module is required on the first call only; \<open>loaded\<close> is whether the
  global \<^verbatim>\<open>pdfjsLib\<close> is set.  The effects of the call and the new state of the global.
\<close>

definition initPdfJs :: "bool \<Rightarrow> event list \<times> bool" where
  "initPdfJs loaded = (if \<not> loaded then ([RequirePdfJs], True) else ([], loaded))"

definition convertPdfToPng ::
  "('d, 'p, 'c) pdfjs_canvas \<Rightarrow> bool \<Rightarrow> js_value \<Rightarrow> string \<Rightarrow> (js_error + bytes) \<times> event list" where
  "convertPdfToPng lib loaded pdfBuffer cid =
     (let e1 = [ConsoleLog (''['' @ cid @ ''] Initializing PDF.js...'')] @ fst (initPdfJs loaded)
               @ [ConsoleLog (''['' @ cid @ ''] Loading PDF document...''), GetDocument pdfBuffer]
      in case getDocument lib pdfBuffer of
           Inl e \<Rightarrow> (Inl e, e1)
         | Inr pdf \<Rightarrow>
             let e2 = e1 @ [ConsoleLog (''['' @ cid @ ''] PDF loaded, pages: ''
                                        @ js_toString (int (numPages lib pdf)))]
             in if numPages lib pdf = 0 then (Inl (Error ''PDF has no pages''), e2)
                else
                  case getPage lib pdf 1 of
                    Inl e \<Rightarrow> (Inl e, e2 @ [GetPage 1])
                  | Inr pg \<Rightarrow>
                      let (w, h) = getViewport lib pg 2;
                          e3 = e2 @ [GetPage 1, GetViewport 2,
                                     ConsoleLog (''['' @ cid @ ''] Creating canvas '' @ js_toString w
                                                 @ ''x'' @ js_toString h @ ''...''),
                                     CreateCanvas w h]
                      in case createCanvas lib w h of
                           Inl e \<Rightarrow> (Inl e, e3)
                         | Inr canvas \<Rightarrow>
                             let filled = fillRect lib canvas ''white'' 0 0 w h;
                                 e4 = e3 @ [FillRect ''white'' 0 0 w h,
                                            ConsoleLog (''['' @ cid @ ''] Rendering PDF page to canvas...''),
                                            Render]
                             in case render lib pg filled of
                                  Inl e \<Rightarrow> (Inl e, e4)
                                | Inr drawn \<Rightarrow>
                                    let e5 = e4 @ [ConsoleLog (''['' @ cid
                                                     @ ''] Converting canvas to PNG buffer...''),
                                                   ToBuffer ''image/png'']
                                    in case toBuffer lib drawn ''image/png'' of
                                         Inl e \<Rightarrow> (Inl e, e5)
                                       | Inr pngBuffer \<Rightarrow>
                                           (case cleanup lib pg of
                                              Some e \<Rightarrow> (Inl e, e5 @ [PageCleanup])
                                            | None \<Rightarrow>
                                                (case destroy lib pdf of
                                                   Some e \<Rightarrow> (Inl e, e5 @ [PageCleanup, PdfDestroy])
                                                 | None \<Rightarrow> (Inr pngBuffer, e5 @ [PageCleanup, PdfDestroy]))))"

text \<open>The two routes of the second build; the last component is the global \<^verbatim>\<open>pdfjsLib\<close> flag.\<close>

definition post_convert_canvas ::
  "('d, 'p, 'c) pdfjs_canvas \<Rightarrow> bool \<Rightarrow> request \<Rightarrow> (nat \<Rightarrow> int) \<Rightarrow> (response \<times> event list) \<times> bool" where
  "post_convert_canvas lib loaded req now =
     (let startTime = now 0;
          cid = correlationId req;
          buf = (case req_file req of None \<Rightarrow> JUndefined | Some f \<Rightarrow> buffer f);
          received = ConsoleLog (''['' @ cid @ ''] PDF conversion request received, size: ''
                                 @ js_toString (int (length_or_zero buf)) @ '' bytes'')
      in if req_file req = None \<or> \<not> truthy buf then
           ((res_json 400 [(''error'', JsonString ''No PDF file provided''),
                           (''correlationId'', JsonString cid)],
             [received]), loaded)
         else
           (case convertPdfToPng lib loaded buf cid of
              (Inl e, evs) \<Rightarrow> catch_block ''Conversion'' cid startTime (now 1) (received # evs) e
            | (Inr pngBuffer, evs) \<Rightarrow>
                let processingTime = now 1 - startTime;
                    successful = ConsoleLog
                      (''['' @ cid @ ''] Conversion successful: '' @ template_length buf
                       @ '' bytes PDF -> '' @ js_toString (int (length pngBuffer))
                       @ '' bytes PNG in '' @ js_toString processingTime @ ''ms'')
                in case png_headers cid buf pngBuffer processingTime of
                     Inl e \<Rightarrow> catch_block ''Conversion'' cid startTime (now 2)
                                (received # evs @ [successful]) e
                   | Inr hs \<Rightarrow> (res_send hs pngBuffer, received # evs @ [successful]),
            snd (initPdfJs loaded)))"

definition post_convert_raw_canvas ::
  "('d, 'p, 'c) pdfjs_canvas \<Rightarrow> bool \<Rightarrow> request \<Rightarrow> (nat \<Rightarrow> int) \<Rightarrow> (response \<times> event list) \<times> bool" where
  "post_convert_raw_canvas lib loaded req now =
     (let startTime = now 0;
          cid = correlationId req;
          received = ConsoleLog (''['' @ cid @ ''] Raw PDF conversion request received, size: ''
                                 @ js_toString (int (length_or_zero (body req))) @ '' bytes'')
      in if \<not> truthy (body req) \<or> js_length (body req) = Some 0 then
           ((res_json 400 [(''error'', JsonString ''No PDF data provided''),
                           (''correlationId'', JsonString cid)],
             [received]), loaded)
         else
           (case convertPdfToPng lib loaded (body req) cid of
              (Inl e, evs) \<Rightarrow> catch_block ''Raw conversion'' cid startTime (now 1) (received # evs) e
            | (Inr pngBuffer, evs) \<Rightarrow>
                let processingTime = now 1 - startTime;
                    successful = ConsoleLog
                      (''['' @ cid @ ''] Raw conversion successful: '' @ template_length (body req)
                       @ '' bytes PDF -> '' @ js_toString (int (length pngBuffer))
                       @ '' bytes PNG in '' @ js_toString processingTime @ ''ms'')
                in case png_headers cid (body req) pngBuffer processingTime of
                     Inl e \<Rightarrow> catch_block ''Raw conversion'' cid startTime (now 2)
                                (received # evs @ [successful]) e
                   | Inr hs \<Rightarrow> (res_send hs pngBuffer, received # evs @ [successful]),
            snd (initPdfJs loaded)))"

section \<open>Third build: \<^verbatim>\<open>pdf-poppler\<close> on temporary files\<close>

subsection \<open>\<^verbatim>\<open>path.join\<close> (POSIX)\<close>

text \<open>\<^verbatim>\<open>s.split(c)\<close>: the pieces between the separators, empty ones included.\<close>

fun split_on :: "char \<Rightarrow> string \<Rightarrow> string list" where
  "split_on c [] = [[]]"
| "split_on c (x # xs) =
     (if x = c then [] # split_on c xs
      else (case split_on c xs of [] \<Rightarrow> [[x]] | s # ss \<Rightarrow> (x # s) # ss))"

fun join_with :: "string \<Rightarrow> string list \<Rightarrow> string" where
  "join_with sep [] = []"
| "join_with sep [s] = s"
| "join_with sep (s # t # ss) = s @ sep @ join_with sep (t # ss)"

text \<open>
  One segment of Node's \<^verbatim>\<open>normalizeString\<close>; the segments kept so far are held last
  first.  Empty and \<^verbatim>\<open>.\<close> segments are dropped, \<^verbatim>\<open>..\<close> removes the segment before it, and
  is kept only where the path may climb above its start.
\<close>

definition normalize_step :: "bool \<Rightarrow> string list \<Rightarrow> string \<Rightarrow> string list" where
  "normalize_step allowAboveRoot kept seg =
     (if seg = [] \<or> seg = ''.'' then kept
      else if seg = ''..'' then
        (case kept of
           [] \<Rightarrow> if allowAboveRoot then [''..''] else []
         | k # ks \<Rightarrow> if k = ''..'' then ''..'' # kept else ks)
      else seg # kept)"

definition normalizeString :: "string \<Rightarrow> bool \<Rightarrow> string" where
  "normalizeString p allowAboveRoot =
     join_with ''/'' (rev (foldl (normalize_step allowAboveRoot) [] (split_on CHR ''/'' p)))"

definition path_normalize :: "string \<Rightarrow> string" where
  "path_normalize p =
     (if p = [] then ''.''
      else
        let isAbsolute = (hd p = CHR ''/'');
            trailingSeparator = (last p = CHR ''/'');
            q = normalizeString p (\<not> isAbsolute)
        in if q = [] then (if isAbsolute then ''/'' else if trailingSeparator then ''./'' else ''.'')
           else (if isAbsolute then ''/'' else []) @ q @ (if trailingSeparator then ''/'' else []))"

text \<open>\<^verbatim>\<open>path.join(a, b)\<close>: the non-empty arguments joined by \<^verbatim>\<open>/\<close>, then normalized.\<close>

definition path_join :: "string \<Rightarrow> string \<Rightarrow> string" where
  "path_join a b =
     (if a = [] \<and> b = [] then ''.''
      else if a = [] then path_normalize b
      else if b = [] then path_normalize a
      else path_normalize (a @ ''/'' @ b))"

text \<open>The directory part of a normalized absolute path.\<close>

definition dirname :: "string \<Rightarrow> string" where
  "dirname p =
     (let d = butlast (rev (dropWhile (\<lambda>c. c \<noteq> CHR ''/'') (rev p)))
      in if d = [] then ''/'' else d)"

subsection \<open>The file system\<close>

text \<open>
  The files and directories on disk, by normalized absolute path.  Each \<^verbatim>\<open>fs\<close> call
  answers the new state, or the error it throws and leaves the disk as it was.
\<close>

datatype node = File bytes | Dir

type_synonym filesystem = "(string \<times> node) list"

definition fs_error :: "string \<Rightarrow> string \<Rightarrow> string \<Rightarrow> js_error" where
  "fs_error reason syscall p = Error (reason @ '', '' @ syscall @ '' '' @ [CHR 0x27] @ p @ [CHR 0x27])"

definition is_directory :: "filesystem \<Rightarrow> string \<Rightarrow> bool" where
  "is_directory fs p = (p = ''/'' \<or> map_of fs p = Some Dir)"

definition is_file :: "filesystem \<Rightarrow> string \<Rightarrow> bool" where
  "is_file fs p = (case map_of fs p of Some (File d) \<Rightarrow> True | _ \<Rightarrow> False)"

text \<open>The error for a path that is not there: \<^verbatim>\<open>ENOTDIR\<close> below a file, else \<^verbatim>\<open>ENOENT\<close>.\<close>

definition missing :: "filesystem \<Rightarrow> string \<Rightarrow> string \<Rightarrow> js_error" where
  "missing fs syscall p =
     (if is_file fs (dirname p) then fs_error ''ENOTDIR: not a directory'' syscall p
      else fs_error ''ENOENT: no such file or directory'' syscall p)"

definition has_entries :: "filesystem \<Rightarrow> string \<Rightarrow> bool" where
  "has_entries fs d = list_ex (\<lambda>(q, n). length d < length q \<and> take (length d + 1) q = d @ ''/'') fs"

definition remove_entry :: "filesystem \<Rightarrow> string \<Rightarrow> filesystem" where
  "remove_entry fs p = filter (\<lambda>(q, n). q \<noteq> p) fs"

text \<open>The \<^verbatim>\<open>TypeError\<close> of \<^verbatim>\<open>fs.writeFileSync\<close> on data that is neither a string nor a buffer.\<close>

definition invalid_data :: "string \<Rightarrow> js_error" where
  "invalid_data received =
     Error (''The '' @ [CHR 0x22] @ ''data'' @ [CHR 0x22]
            @ '' argument must be of type string or an instance of Buffer, TypedArray, or DataView. ''
            @ received)"

definition writeFileSync :: "filesystem \<Rightarrow> string \<Rightarrow> js_value \<Rightarrow> js_error + filesystem" where
  "writeFileSync fs p data =
     (case data of
        JBuffer d \<Rightarrow>
          if map_of fs p = Some Dir then
            Inl (fs_error ''EISDIR: illegal operation on a directory'' ''open'' p)
          else if \<not> is_directory fs (dirname p) then Inl (missing fs ''open'' p)
          else Inr ((p, File d) # remove_entry fs p)
      | JObject \<Rightarrow> Inl (invalid_data ''Received an instance of Object'')
      | JUndefined \<Rightarrow> Inl (invalid_data ''Received undefined''))"

definition readFileSync :: "filesystem \<Rightarrow> string \<Rightarrow> js_error + bytes" where
  "readFileSync fs p =
     (case map_of fs p of
        Some (File d) \<Rightarrow> Inr d
      | Some Dir \<Rightarrow> Inl (Error ''EISDIR: illegal operation on a directory, read'')
      | None \<Rightarrow> Inl (missing fs ''open'' p))"

definition unlinkSync :: "filesystem \<Rightarrow> string \<Rightarrow> js_error + filesystem" where
  "unlinkSync fs p =
     (case map_of fs p of
        Some (File d) \<Rightarrow> Inr (remove_entry fs p)
      | Some Dir \<Rightarrow> Inl (fs_error ''EISDIR: illegal operation on a directory'' ''unlink'' p)
      | None \<Rightarrow> Inl (missing fs ''unlink'' p))"

definition rmdirSync :: "filesystem \<Rightarrow> string \<Rightarrow> js_error + filesystem" where
  "rmdirSync fs p =
     (case map_of fs p of
        Some Dir \<Rightarrow>
          if has_entries fs p then Inl (fs_error ''ENOTEMPTY: directory not empty'' ''rmdir'' p)
          else Inr (remove_entry fs p)
      | Some (File d) \<Rightarrow> Inl (fs_error ''ENOTDIR: not a directory'' ''rmdir'' p)
      | None \<Rightarrow> Inl (missing fs ''rmdir'' p))"

subsection \<open>The handlers\<close>

text \<open>
  What \<^verbatim>\<open>pdf.convert\<close> resolves to, as far as the handler looks at it: a falsy value, or
  a value with a \<^verbatim>\<open>length\<close>.  The converter is an external process: it answers (or
  rejects) and leaves the disk in a new state.
\<close>

datatype convert_results = Falsy | Sized nat

type_synonym poppler =
  "filesystem \<Rightarrow> string \<Rightarrow> poppler_options \<Rightarrow> (js_error + convert_results) \<times> filesystem"

text \<open>The scratch paths of a request, as the two routes compute them.\<close>

definition tempPdfPath :: "string \<Rightarrow> string" where
  "tempPdfPath cid = path_join ''/tmp'' (cid @ ''.pdf'')"

definition tempOutputDir :: "string \<Rightarrow> string" where
  "tempOutputDir cid = path_join ''/tmp'' (''output-'' @ cid)"

definition tempPdfPath_raw :: "string \<Rightarrow> string" where
  "tempPdfPath_raw cid = path_join ''/tmp'' (cid @ ''-raw.pdf'')"

definition tempOutputDir_raw :: "string \<Rightarrow> string" where
  "tempOutputDir_raw cid = path_join ''/tmp'' (''output-'' @ cid @ ''-raw'')"

definition poppler_convert_options :: "string \<Rightarrow> poppler_options" where
  "poppler_convert_options dir =
     \<lparr>format = ''png'', out_dir = dir, out_prefix = ''page'', page = 1, scale = 2048,
      single_file = True\<rparr>"

text \<open>
  The clean-up block: the three removals in order, the first failure ends the block with
  a warning and is not rethrown.
\<close>

definition clean_up ::
  "string \<Rightarrow> string \<Rightarrow> filesystem \<Rightarrow> string \<Rightarrow> string \<Rightarrow> string \<Rightarrow> event list \<times> filesystem" where
  "clean_up what cid fs pdfPath pngPath outputDir =
     (let warning = (\<lambda>e. ConsoleWarn (''['' @ cid @ ''] '' @ what @ '' warning:'') (message e))
      in case unlinkSync fs pdfPath of
           Inl e \<Rightarrow> ([warning e], fs)
         | Inr fs1 \<Rightarrow>
             (case unlinkSync fs1 pngPath of
                Inl e \<Rightarrow> ([warning e], fs1)
              | Inr fs2 \<Rightarrow>
                  (case rmdirSync fs2 outputDir of
                     Inl e \<Rightarrow> ([warning e], fs2)
                   | Inr fs3 \<Rightarrow> ([], fs3))))"

definition post_convert_poppler ::
  "poppler \<Rightarrow> filesystem \<Rightarrow> request \<Rightarrow> (nat \<Rightarrow> int) \<Rightarrow> (response \<times> event list) \<times> filesystem" where
  "post_convert_poppler convert fs req now =
     (let startTime = now 0;
          cid = correlationId req;
          buf = (case req_file req of None \<Rightarrow> JUndefined | Some f \<Rightarrow> buffer f);
          received = ConsoleLog (''['' @ cid @ ''] PDF conversion request received, size: ''
                                 @ js_toString (int (length_or_zero buf)) @ '' bytes'')
      in if req_file req = None \<or> \<not> truthy buf then
           ((res_json 400 [(''error'', JsonString ''No PDF file provided''),
                           (''correlationId'', JsonString cid)],
             [received]), fs)
         else
           let starting = ConsoleLog (''['' @ cid @ ''] Starting PDF to PNG conversion...'');
               pdfPath = tempPdfPath cid;
               outputDir = tempOutputDir cid
           in case writeFileSync fs pdfPath buf of
                Inl e \<Rightarrow> (catch_block ''Conversion'' cid startTime (now 1) [received, starting] e, fs)
              | Inr fs1 \<Rightarrow>
                  let options = poppler_convert_options outputDir;
                      evs = [received, starting, PopplerConvert pdfPath options]
                  in case convert fs1 pdfPath options of
                       (Inl e, fs2) \<Rightarrow> (catch_block ''Conversion'' cid startTime (now 1) evs e, fs2)
                     | (Inr Falsy, fs2) \<Rightarrow>
                         (catch_block ''Conversion'' cid startTime (now 1) evs
                            (Error ''No pages converted from PDF''), fs2)
                     | (Inr (Sized n), fs2) \<Rightarrow>
                         if n = 0 then
                           (catch_block ''Conversion'' cid startTime (now 1) evs
                              (Error ''No pages converted from PDF''), fs2)
                         else
                           let pngPath = path_join outputDir ''page-1.png''
                           in case readFileSync fs2 pngPath of
                                Inl e \<Rightarrow> (catch_block ''Conversion'' cid startTime (now 1) evs e, fs2)
                              | Inr pngBuffer \<Rightarrow>
                                  let (warnings, fs3) = clean_up ''Cleanup'' cid fs2 pdfPath pngPath outputDir;
                                      processingTime = now 1 - startTime;
                                      successful = ConsoleLog
                                        (''['' @ cid @ ''] Conversion successful: '' @ template_length buf
                                         @ '' bytes PDF -> '' @ js_toString (int (length pngBuffer))
                                         @ '' bytes PNG in '' @ js_toString processingTime @ ''ms'')
                                  in case png_headers cid buf pngBuffer processingTime of
                                       Inl e \<Rightarrow>
                                         (catch_block ''Conversion'' cid startTime (now 2)
                                            (evs @ warnings @ [successful]) e, fs3)
                                     | Inr hs \<Rightarrow>
                                         ((res_send hs pngBuffer, evs @ warnings @ [successful]), fs3))"


section \<open>The middleware in front of the handlers\<close>

text \<open>
  What reaches the server: the header fields (names in lower case), the file parts of a
  multipart form in the order sent, each with its field name and content (none when the
  request is no multipart form), and the entity body (\<open>None\<close> when the request announces
  none).
\<close>

record http_request =
  http_headers :: "(string \<times> string) list"
  file_parts :: "(string \<times> bytes) list"
  entity :: "bytes option"

text \<open>Both size limits: \<^verbatim>\<open>10 * 1024 * 1024\<close> for multer, \<^verbatim>\<open>'10mb'\<close> for the raw parser.\<close>

definition size_limit :: nat where
  "size_limit = 10 * 1024 * 1024"

text \<open>
  \<^verbatim>\<open>upload.single('pdf')\<close> with memory storage, as multer 1.4.5 on busboy 1 behaves.
  Without a file part \<^verbatim>\<open>req.file\<close> stays undefined.  One file part named \<^verbatim>\<open>pdf\<close> of fewer
  bytes than the limit becomes \<^verbatim>\<open>req.file\<close>, its \<^verbatim>\<open>buffer\<close> holding the bytes (an empty part
  gives an empty buffer).  A part that reaches the limit, a part under another field name
  and any second file part are errors the handler never sees; Express answers them with
  status 500.
\<close>

definition upload_single :: "http_request \<Rightarrow> nat + request" where
  "upload_single r =
     (case file_parts r of
        [] \<Rightarrow> Inr \<lparr>headers = http_headers r, req_file = None, body = JObject\<rparr>
      | [(name, d)] \<Rightarrow>
          if name = ''pdf'' \<and> length d < size_limit
          then Inr \<lparr>headers = http_headers r, req_file = Some \<lparr>buffer = JBuffer d\<rparr>, body = JObject\<rparr>
          else Inl 500
      | part # parts \<Rightarrow> Inl 500)"

text \<open>The media type a \<^verbatim>\<open>Content-Type\<close> field names: the text before the parameters, lower case.\<close>

definition to_lower :: "char \<Rightarrow> char" where
  "to_lower c = (let n = (of_char c :: nat) in if 65 \<le> n \<and> n \<le> 90 then char_of (n + 32) else c)"

definition trim :: "string \<Rightarrow> string" where
  "trim s = rev (dropWhile (\<lambda>c. c = CHR '' '') (rev (dropWhile (\<lambda>c. c = CHR '' '') s)))"

definition media_type :: "string \<Rightarrow> string" where
  "media_type v = map to_lower (trim (takeWhile (\<lambda>c. c \<noteq> CHR '';'') v))"

definition is_pdf :: "http_request \<Rightarrow> bool" where
  "is_pdf r =
     (case map_of (http_headers r) ''content-type'' of
        None \<Rightarrow> False
      | Some v \<Rightarrow> media_type v = ''application/pdf'')"

text \<open>
  The type test of the body parser (\<^verbatim>\<open>type-is\<close> on \<^verbatim>\<open>media-typer\<close>) first parses the whole
  field and fails when the parameters after the media type are malformed.  The parameter
  section is a sequence of \<^verbatim>\<open>; name = value\<close>, a value being a token or a quoted string;
  it is read here by a machine over the characters.
\<close>

definition token_char :: "char \<Rightarrow> bool" where
  "token_char c =
     (let n = (of_char c :: nat)
      in n = 0x21 \<or> (0x23 \<le> n \<and> n \<le> 0x27) \<or> n = 0x2A \<or> n = 0x2B \<or> n = 0x2D \<or> n = 0x2E
         \<or> (0x30 \<le> n \<and> n \<le> 0x39) \<or> (0x41 \<le> n \<and> n \<le> 0x5A) \<or> (0x5E \<le> n \<and> n \<le> 0x7A)
         \<or> n = 0x7C \<or> n = 0x7E)"

definition quoted_char :: "char \<Rightarrow> bool" where
  "quoted_char c =
     (let n = (of_char c :: nat)
      in n = 0x20 \<or> n = 0x21 \<or> (0x23 \<le> n \<and> n \<le> 0x5B) \<or> (0x5D \<le> n \<and> n \<le> 0x7E) \<or> 0x80 \<le> n)"

definition escaped_char :: "char \<Rightarrow> bool" where
  "escaped_char c = (let n = (of_char c :: nat) in 0x20 \<le> n \<and> n \<le> 0x7E)"

datatype param_state =
    Boundary | AfterSemicolon | InName | AfterName | AfterEquals
  | InToken | InQuoted | Escaped | AfterValue

fun param_step :: "param_state \<Rightarrow> char \<Rightarrow> param_state option" where
  "param_step Boundary c = (if c = CHR '';'' then Some AfterSemicolon else None)"
| "param_step AfterSemicolon c =
     (if c = CHR '' '' then Some AfterSemicolon else if token_char c then Some InName else None)"
| "param_step InName c =
     (if token_char c then Some InName else if c = CHR '' '' then Some AfterName
      else if c = CHR ''='' then Some AfterEquals else None)"
| "param_step AfterName c =
     (if c = CHR '' '' then Some AfterName else if c = CHR ''='' then Some AfterEquals else None)"
| "param_step AfterEquals c =
     (if c = CHR '' '' then Some AfterEquals else if c = CHR 0x22 then Some InQuoted
      else if token_char c then Some InToken else None)"
| "param_step InToken c =
     (if token_char c then Some InToken else if c = CHR '' '' then Some AfterValue
      else if c = CHR '';'' then Some AfterSemicolon else None)"
| "param_step InQuoted c =
     (if c = CHR 0x22 then Some AfterValue else if c = CHR 0x5C then Some Escaped
      else if quoted_char c then Some InQuoted else None)"
| "param_step Escaped c = (if escaped_char c then Some InQuoted else None)"
| "param_step AfterValue c =
     (if c = CHR '' '' then Some AfterValue else if c = CHR '';'' then Some AfterSemicolon else None)"

fun read_parameters :: "param_state \<Rightarrow> string \<Rightarrow> bool" where
  "read_parameters st [] = (st = Boundary \<or> st = InToken \<or> st = AfterValue)"
| "read_parameters st (c # cs) =
     (case param_step st c of None \<Rightarrow> False | Some st' \<Rightarrow> read_parameters st' cs)"

definition well_formed_parameters :: "http_request \<Rightarrow> bool" where
  "well_formed_parameters r =
     (case map_of (http_headers r) ''content-type'' of
        None \<Rightarrow> False
      | Some v \<Rightarrow> read_parameters Boundary (dropWhile (\<lambda>c. c \<noteq> CHR '';'') v))"

text \<open>
  \<^verbatim>\<open>express.raw({type: 'application/pdf', limit: '10mb'})\<close>, as the body parser of Express 4
  behaves: it first sets \<^verbatim>\<open>req.body\<close> to \<^verbatim>\<open>{}\<close>, and replaces it by the buffered entity
  only when the request has a body whose content type parses and names the configured
  type.  A body over the limit is answered with status 413 before the handler runs.
\<close>

definition express_raw :: "http_request \<Rightarrow> nat + request" where
  "express_raw r =
     (case entity r of
        None \<Rightarrow> Inr \<lparr>headers = http_headers r, req_file = None, body = JObject\<rparr>
      | Some d \<Rightarrow>
          if \<not> (is_pdf r \<and> well_formed_parameters r)
          then Inr \<lparr>headers = http_headers r, req_file = None, body = JObject\<rparr>
          else if size_limit < length d then Inl 413
          else Inr \<lparr>headers = http_headers r, req_file = None, body = JBuffer d\<rparr>)"

text \<open>The answer of Express when a middleware fails.\<close>

definition rejected :: "nat \<Rightarrow> response \<times> event list" where
  "rejected code = (\<lparr>status = code, res_headers = [], sent = DefaultErrorPage\<rparr>, [])"

text \<open>The two routes of the first build, middleware and handler together.\<close>

definition route_convert :: "pdf_to_png \<Rightarrow> http_request \<Rightarrow> (nat \<Rightarrow> int) \<Rightarrow> response \<times> event list" where
  "route_convert pdfToPng r now =
     (case upload_single r of Inl code \<Rightarrow> rejected code | Inr req \<Rightarrow> post_convert pdfToPng req now)"

definition route_convert_raw :: "pdf_to_png \<Rightarrow> http_request \<Rightarrow> (nat \<Rightarrow> int) \<Rightarrow> response \<times> event list" where
  "route_convert_raw pdfToPng r now =
     (case express_raw r of Inl code \<Rightarrow> rejected code | Inr req \<Rightarrow> post_convert_raw pdfToPng req now)"



text \<open>The routes of the third build.\<close>

definition route_convert_poppler ::
  "poppler \<Rightarrow> filesystem \<Rightarrow> http_request \<Rightarrow> (nat \<Rightarrow> int) \<Rightarrow> (response \<times> event list) \<times> filesystem" where
  "route_convert_poppler convert fs r now =
     (case upload_single r of
        Inl code \<Rightarrow> (rejected code, fs)
      | Inr req \<Rightarrow> post_convert_poppler convert fs req now)"


section \<open>Observations on responses and effects\<close>

text \<open>The calls a handler made to \<^verbatim>\<open>pdfToPng\<close>, with their arguments.\<close>

definition pdfToPng_calls :: "event list \<Rightarrow> (js_value \<times> pdf_to_png_options) list" where
  "pdfToPng_calls evs =
     concat (map (\<lambda>ev. case ev of PdfToPng v opts \<Rightarrow> [(v, opts)] | _ \<Rightarrow> []) evs)"

text \<open>The image a response carries, if it carries one.\<close>

definition output_image :: "response \<Rightarrow> bytes option" where
  "output_image res = (case sent res of SendBuffer png \<Rightarrow> Some png | _ \<Rightarrow> None)"

text \<open>The field names of a JSON body, in order.\<close>

definition json_fields :: "response \<Rightarrow> string list" where
  "json_fields res = (case sent res of SendJson obj \<Rightarrow> map fst obj | _ \<Rightarrow> [])"

text \<open>
  A response carries an image, is typed \<^verbatim>\<open>image/png\<close>, and its size and timing headers
  print the given input length, the length of the image it carries, and the given time.
\<close>

definition reports_sizes :: "response \<Rightarrow> nat \<Rightarrow> int \<Rightarrow> bool" where
  "reports_sizes res original elapsed =
     (case sent res of
        SendBuffer png \<Rightarrow>
          map_of (res_headers res) ''Content-Type'' = Some ''image/png''
          \<and> map_of (res_headers res) ''X-Original-Size'' = Some (js_toString (int original))
          \<and> map_of (res_headers res) ''X-Converted-Size'' = Some (js_toString (int (length png)))
          \<and> map_of (res_headers res) ''X-Processing-Time-Ms'' = Some (js_toString elapsed)
      | _ \<Rightarrow> False)"

text \<open>
  The one thing assumed of \<^verbatim>\<open>pdfToPng\<close> where a property needs it: the pages it returns
  hold encoded images, which are never empty.
\<close>

definition png_pages :: "pdf_to_png \<Rightarrow> bool" where
  "png_pages pdfToPng =
     (\<forall>v opts pages. pdfToPng v opts = Inr (Some pages) \<longrightarrow> list_all (\<lambda>p. content p \<noteq> []) pages)"

text \<open>The page numbers a handler of the second build fetched with \<^verbatim>\<open>getPage\<close>, in order.\<close>

definition pages_fetched :: "event list \<Rightarrow> nat list" where
  "pages_fetched evs = concat (map (\<lambda>ev. case ev of GetPage n \<Rightarrow> [n] | _ \<Rightarrow> []) evs)"

text \<open>How often a page was drawn on a canvas.\<close>

definition renders :: "event list \<Rightarrow> nat" where
  "renders evs = length (filter (\<lambda>ev. ev = Render) evs)"

text \<open>A field of a JSON body.\<close>

definition json_field :: "response \<Rightarrow> string \<Rightarrow> json option" where
  "json_field res k = (case sent res of SendJson obj \<Rightarrow> map_of obj k | _ \<Rightarrow> None)"

text \<open>The body of every 500 answer, given its message.\<close>

definition conversion_failed :: "string \<Rightarrow> string \<Rightarrow> int \<Rightarrow> response" where
  "conversion_failed msg cid elapsed =
     res_json 500 [(''error'', JsonString ''PDF conversion failed''),
                   (''message'', JsonString msg),
                   (''correlationId'', JsonString cid),
                   (''processingTimeMs'', JsonNumber elapsed)]"

text \<open>A path segment that \<^verbatim>\<open>path.join\<close> leaves as it is.\<close>

definition plain_segment :: "string \<Rightarrow> bool" where
  "plain_segment s = (CHR ''/'' \<notin> set s \<and> s \<noteq> [] \<and> s \<noteq> ''.'' \<and> s \<noteq> ''..'')"

text \<open>The scratch paths a request is given on each route of the third build.\<close>

definition scratch_paths :: "request \<Rightarrow> string list" where
  "scratch_paths req = [tempPdfPath (correlationId req), tempOutputDir (correlationId req)]"

definition scratch_paths_raw :: "request \<Rightarrow> string list" where
  "scratch_paths_raw req = [tempPdfPath_raw (correlationId req), tempOutputDir_raw (correlationId req)]"



definition rejects_empty_render :: "(bytes \<Rightarrow> js_error + bytes) \<Rightarrow> bool" where
  "rejects_empty_render image_of = (case image_of [] of Inl e \<Rightarrow> True | Inr png \<Rightarrow> False)"




section \<open>Example inputs\<close>

text \<open>
  A stand-in for \<^verbatim>\<open>pdf-to-png-converter\<close> to run the handlers on.  A document is its bytes,
  one page per byte, and the image of a page is that byte.  It rejects what is not a
  buffer and the empty buffer.  Pages are selected the way the library's interface has
  it, by the property \<^verbatim>\<open>pagesToProcess\<close>; without it every page is rendered and returned.
  Properties the library does not know are ignored.
\<close>

fun pages_from :: "nat \<Rightarrow> bytes \<Rightarrow> png_page list" where
  "pages_from n [] = []"
| "pages_from n (b # bs) = \<lparr>pageNumber = n, content = [b]\<rparr> # pages_from (Suc n) bs"

definition page_per_byte :: pdf_to_png where
  "page_per_byte v opts =
     (case v of
        JBuffer d \<Rightarrow>
          if d = [] then Inl (Error ''The PDF file is empty'')
          else (case map_of opts ''pagesToProcess'' of
                  Some (PNumbers ns) \<Rightarrow>
                    Inr (Some (filter (\<lambda>p. pageNumber p \<in> set ns) (pages_from 1 d)))
                | _ \<Rightarrow> Inr (Some (pages_from 1 d)))
      | _ \<Rightarrow> Inl (Error ''Invalid PDF data''))"

text \<open>An upload of three pages, and the options object had it named the page to process.\<close>

definition three_page_upload :: request where
  "three_page_upload =
     \<lparr>headers = [], req_file = Some \<lparr>buffer = JBuffer [37, 80, 68]\<rparr>, body = JObject\<rparr>"

definition first_page_options :: pdf_to_png_options where
  "first_page_options = (''pagesToProcess'', PNumbers [1]) # convert_options"




definition example_request :: request where
  "example_request =
     \<lparr>headers = [(''x-correlation-id'', ''abc-123'')],
      req_file = Some \<lparr>buffer = JBuffer [37, 80]\<rparr>,
      body = JBuffer [37, 80]\<rparr>"

text \<open>A raw request of another content type, a form with an empty file part, a form with none.\<close>

definition plain_text_post :: http_request where
  "plain_text_post =
     \<lparr>http_headers = [(''content-type'', ''text/plain'')], file_parts = [],
      entity = Some [37, 80, 68, 70]\<rparr>"

definition empty_upload :: http_request where
  "empty_upload = \<lparr>http_headers = [], file_parts = [(''pdf'', [])], entity = None\<rparr>"

definition no_file_post :: http_request where
  "no_file_post = \<lparr>http_headers = [], file_parts = [], entity = None\<rparr>"

definition empty_raw_post :: http_request where
  "empty_raw_post =
     \<lparr>http_headers = [(''content-type'', ''application/pdf'')], file_parts = [], entity = Some []\<rparr>"

text \<open>
  A stand-in for \<^verbatim>\<open>pdfjs-dist\<close> and \<^verbatim>\<open>canvas\<close>: a document is its bytes, one page per byte; a
  canvas is the list of pages drawn on it, and encodes to that list.
\<close>

definition example_pdfjs :: "(bytes, 8 word, bytes) pdfjs_canvas" where
  "example_pdfjs =
     \<lparr>getDocument = (\<lambda>v. case v of JBuffer d \<Rightarrow> if d = [] then Inl (Error ''The PDF file is empty'') else Inr d
                              | _ \<Rightarrow> Inl (Error ''Invalid PDF data'')),
      numPages = length,
      getPage = (\<lambda>d n. if 1 \<le> n \<and> n \<le> length d then Inr (d ! (n - 1)) else Inl (Error ''Invalid page request'')),
      getViewport = (\<lambda>p s. (612 * s, 792 * s)),
      createCanvas = (\<lambda>w h. Inr []),
      fillRect = (\<lambda>c style x y w h. c),
      render = (\<lambda>p c. Inr (p # c)),
      toBuffer = (\<lambda>c t. Inr c),
      cleanup = (\<lambda>p. None),
      destroy = (\<lambda>d. None)\<rparr>"



text \<open>A library that finds no page, and one that rejects the document.\<close>

definition no_pages_returned :: pdf_to_png where
  "no_pages_returned v opts = Inr (Some [])"

definition rejects_structure :: pdf_to_png where
  "rejects_structure v opts = Inl (Error ''Invalid PDF structure'')"

text \<open>Uploads without and with a correlation id.\<close>

definition anonymous_upload :: "bytes \<Rightarrow> request" where
  "anonymous_upload d = \<lparr>headers = [], req_file = Some \<lparr>buffer = JBuffer d\<rparr>, body = JObject\<rparr>"

definition named_upload :: "string \<Rightarrow> bytes \<Rightarrow> request" where
  "named_upload cid d =
     \<lparr>headers = [(''x-correlation-id'', cid)], req_file = Some \<lparr>buffer = JBuffer d\<rparr>, body = JObject\<rparr>"

text \<open>
  A disk holding \<^verbatim>\<open>/tmp\<close> only, and three converters: one that rejects every document,
  one that writes the expected output file (a copy of its input), one that writes a second
  page beside it.
\<close>

definition tmp_only :: filesystem where
  "tmp_only = [(''/tmp'', Dir)]"

definition rejecting :: poppler where
  "rejecting fs p opts = (Inl (Error ''pdftocairo exited with code 1''), fs)"

definition writes_page :: poppler where
  "writes_page fs p opts =
     (case map_of fs p of
        Some (File d) \<Rightarrow>
          (Inr (Sized 1), (path_join (out_dir opts) ''page-1.png'', File d) # (out_dir opts, Dir) # fs)
      | _ \<Rightarrow> (Inl (Error ''I/O Error''), fs))"

definition writes_two_pages :: poppler where
  "writes_two_pages fs p opts =
     (case map_of fs p of
        Some (File d) \<Rightarrow>
          (Inr (Sized 2),
           (path_join (out_dir opts) ''page-1.png'', File d)
           # (path_join (out_dir opts) ''page-2.png'', File d) # (out_dir opts, Dir) # fs)
      | _ \<Rightarrow> (Inl (Error ''I/O Error''), fs))"

text \<open>
  A \<^verbatim>\<open>pdf.js\<close> stand-in that loads every input as a document without pages, and a
  converter that resolves to a falsy value and writes nothing.
\<close>

definition blank_pdfjs :: "(bytes, 8 word, bytes) pdfjs_canvas" where
  "blank_pdfjs = example_pdfjs\<lparr>getDocument := (\<lambda>v. Inr [])\<rparr>"

definition prints_nothing :: poppler where
  "prints_nothing fs p opts = (Inr Falsy, fs)"

section \<open>Properties of the handlers\<close>

subsection \<open>Shared steps\<close>

lemma status_catch_block [simp]: "status (fst (catch_block what cid t0 t1 evs e)) = 500"
  by (simp add: catch_block_def res_json_def Let_def)

lemma png_headers_Inr:
  "png_headers cid input png t = Inr hs \<Longrightarrow>
     \<exists>n. js_length input = Some n \<and> reports_sizes (res_send hs png) n t"
  by (auto simp: png_headers_def reports_sizes_def res_send_def split: option.splits)

lemma no_pagesToProcess: "map_of convert_options ''pagesToProcess'' = None"
  by (simp add: convert_options_def)

lemma page_per_byte_simps:
  "page_per_byte (JBuffer (b # bs)) convert_options = Inr (Some (pages_from 1 (b # bs)))"
  "page_per_byte (JBuffer []) opts = Inl (Error ''The PDF file is empty'')"
  "page_per_byte JObject opts = Inl (Error ''Invalid PDF data'')"
  "page_per_byte JUndefined opts = Inl (Error ''Invalid PDF data'')"
  by (simp_all add: page_per_byte_def no_pagesToProcess)

lemma content_pages_from: "p \<in> set (pages_from n d) \<Longrightarrow> content p \<noteq> []"
  by (induction d arbitrary: n) auto

lemma png_pages_page_per_byte: "png_pages page_per_byte"
  by (auto simp: png_pages_def page_per_byte_def list_all_iff content_pages_from
      split: js_value.splits if_splits option.splits js_prop.splits)

subsection \<open>The successful response\<close>

text \<open>
  A 200 from \<^verbatim>\<open>/convert\<close> means: the upload was a buffer, the library returned at least
  one page, and the response sends the first page's content with the size headers of
  that buffer and that content.
\<close>

lemma post_convert_200:
  assumes "status (fst (post_convert pdfToPng req now)) = 200"
  shows "\<exists>d p ps. req_file req = Some \<lparr>buffer = JBuffer d\<rparr>
           \<and> pdfToPng (JBuffer d) convert_options = Inr (Some (p # ps))
           \<and> sent (fst (post_convert pdfToPng req now)) = SendBuffer (content p)
           \<and> reports_sizes (fst (post_convert pdfToPng req now)) (length d) (now 1 - now 0)"
proof -
  from assms obtain f where f: "req_file req = Some f" and t: "truthy (buffer f)"
    by (auto simp: post_convert_def Let_def res_json_def split: if_splits option.splits)
  from assms f t obtain p ps where p: "pdfToPng (buffer f) convert_options = Inr (Some (p # ps))"
    by (auto simp: post_convert_def Let_def split: sum.splits option.splits list.splits)
  from assms f t p obtain hs where
    hs: "png_headers (correlationId req) (buffer f) (content p) (now 1 - now 0) = Inr hs"
    by (auto simp: post_convert_def Let_def split: sum.splits)
  from png_headers_Inr[OF hs] obtain n where n: "js_length (buffer f) = Some n"
    and r: "reports_sizes (res_send hs (content p)) n (now 1 - now 0)" by blast
  from n obtain d where d: "buffer f = JBuffer d" "n = length d" by (cases "buffer f") auto
  have res: "fst (post_convert pdfToPng req now) = res_send hs (content p)"
    using f t p hs by (simp add: post_convert_def Let_def)
  have "f = \<lparr>buffer = JBuffer d\<rparr>" using d by (cases f) simp
  with f d p r res show ?thesis by (auto simp: res_send_def)
qed

lemma post_convert_raw_200:
  assumes "status (fst (post_convert_raw pdfToPng req now)) = 200"
  shows "\<exists>d p ps. body req = JBuffer d \<and> d \<noteq> []
           \<and> pdfToPng (JBuffer d) convert_options = Inr (Some (p # ps))
           \<and> sent (fst (post_convert_raw pdfToPng req now)) = SendBuffer (content p)
           \<and> reports_sizes (fst (post_convert_raw pdfToPng req now)) (length d) (now 1 - now 0)"
proof -
  from assms have t: "truthy (body req)" and z: "js_length (body req) \<noteq> Some 0"
    by (auto simp: post_convert_raw_def Let_def res_json_def split: if_splits)
  from assms t z obtain p ps where p: "pdfToPng (body req) convert_options = Inr (Some (p # ps))"
    by (auto simp: post_convert_raw_def Let_def split: sum.splits option.splits list.splits)
  from assms t z p obtain hs where
    hs: "png_headers (correlationId req) (body req) (content p) (now 1 - now 0) = Inr hs"
    by (auto simp: post_convert_raw_def Let_def split: sum.splits)
  from png_headers_Inr[OF hs] obtain n where n: "js_length (body req) = Some n"
    and r: "reports_sizes (res_send hs (content p)) n (now 1 - now 0)" by blast
  from n obtain d where d: "body req = JBuffer d" "n = length d" by (cases "body req") auto
  have res: "fst (post_convert_raw pdfToPng req now) = res_send hs (content p)"
    using t z p hs by (simp add: post_convert_raw_def Let_def)
  from z d have "d \<noteq> []" by simp
  with d p r res show ?thesis by (auto simp: res_send_def)
qed

lemma example_convert:
  "fst (post_convert page_per_byte example_request int) =
     res_send [(''Content-Type'', ''image/png''), (''Content-Length'', js_toString 1),
               (''X-Processing-Time-Ms'', js_toString 1), (''X-Correlation-Id'', ''abc-123''),
               (''X-Original-Size'', js_toString 2), (''X-Converted-Size'', js_toString 1)] [37]"
  by (simp add: post_convert_def example_request_def page_per_byte_simps png_headers_def
      correlationId_def Let_def)

lemma example_convert_raw:
  "fst (post_convert_raw page_per_byte example_request int) =
     res_send [(''Content-Type'', ''image/png''), (''Content-Length'', js_toString 1),
               (''X-Processing-Time-Ms'', js_toString 1), (''X-Correlation-Id'', ''abc-123''),
               (''X-Original-Size'', js_toString 2), (''X-Converted-Size'', js_toString 1)] [37]"
  by (simp add: post_convert_raw_def example_request_def page_per_byte_simps png_headers_def
      correlationId_def Let_def)

text \<open>
  Claim C9.  Every successful conversion (status 200, on either route) answers a
  non-empty image typed \<^verbatim>\<open>image/png\<close>; \<^verbatim>\<open>X-Original-Size\<close> prints the byte length of the
  input buffer, \<^verbatim>\<open>X-Converted-Size\<close> the byte length of the image sent, and
  \<^verbatim>\<open>X-Processing-Time-Ms\<close> the time between the handler's two clock readings.  That the
  image is not empty is the library's doing: the handler sends the first page's content
  as it is.
\<close>

theorem success_reports_actual_sizes:
  assumes "png_pages pdfToPng"
  shows "(status (fst (post_convert pdfToPng req now)) = 200 \<longrightarrow>
            (\<exists>d png. req_file req = Some \<lparr>buffer = JBuffer d\<rparr>
               \<and> sent (fst (post_convert pdfToPng req now)) = SendBuffer png \<and> png \<noteq> []
               \<and> reports_sizes (fst (post_convert pdfToPng req now)) (length d) (now 1 - now 0)))
       \<and> (status (fst (post_convert_raw pdfToPng req now)) = 200 \<longrightarrow>
            (\<exists>d png. body req = JBuffer d
               \<and> sent (fst (post_convert_raw pdfToPng req now)) = SendBuffer png \<and> png \<noteq> []
               \<and> reports_sizes (fst (post_convert_raw pdfToPng req now)) (length d) (now 1 - now 0)))"
proof (intro conjI impI)
  assume "status (fst (post_convert pdfToPng req now)) = 200"
  from post_convert_200[OF this] obtain d p ps where
    *: "req_file req = Some \<lparr>buffer = JBuffer d\<rparr>"
       "pdfToPng (JBuffer d) convert_options = Inr (Some (p # ps))"
       "sent (fst (post_convert pdfToPng req now)) = SendBuffer (content p)"
       "reports_sizes (fst (post_convert pdfToPng req now)) (length d) (now 1 - now 0)"
    by blast
  from assms *(2) have "content p \<noteq> []" unfolding png_pages_def by fastforce
  with * show "\<exists>d png. req_file req = Some \<lparr>buffer = JBuffer d\<rparr>
               \<and> sent (fst (post_convert pdfToPng req now)) = SendBuffer png \<and> png \<noteq> []
               \<and> reports_sizes (fst (post_convert pdfToPng req now)) (length d) (now 1 - now 0)"
    by blast
next
  assume "status (fst (post_convert_raw pdfToPng req now)) = 200"
  from post_convert_raw_200[OF this] obtain d p ps where
    *: "body req = JBuffer d"
       "pdfToPng (JBuffer d) convert_options = Inr (Some (p # ps))"
       "sent (fst (post_convert_raw pdfToPng req now)) = SendBuffer (content p)"
       "reports_sizes (fst (post_convert_raw pdfToPng req now)) (length d) (now 1 - now 0)"
    by blast
  from assms *(2) have "content p \<noteq> []" unfolding png_pages_def by fastforce
  with * show "\<exists>d png. body req = JBuffer d
               \<and> sent (fst (post_convert_raw pdfToPng req now)) = SendBuffer png \<and> png \<noteq> []
               \<and> reports_sizes (fst (post_convert_raw pdfToPng req now)) (length d) (now 1 - now 0)"
    by blast
qed

theorem success_reports_actual_sizes_witness:
  "png_pages page_per_byte
   \<and> status (fst (post_convert page_per_byte example_request int)) = 200
   \<and> status (fst (post_convert_raw page_per_byte example_request int)) = 200
   \<and> sent (fst (post_convert page_per_byte example_request int)) = SendBuffer [37]
   \<and> reports_sizes (fst (post_convert page_per_byte example_request int)) 2 1
   \<and> reports_sizes (fst (post_convert_raw page_per_byte example_request int)) 2 1"
  using success_reports_actual_sizes [OF png_pages_page_per_byte, of example_request int]
  by (simp add: png_pages_page_per_byte example_convert example_convert_raw res_send_def
      reports_sizes_def)

subsection \<open>The guards against a missing payload\<close>

lemma missing_file_rejected:
  "req_file req = None \<Longrightarrow>
     status (fst (post_convert pdfToPng req now)) = 400
     \<and> pdfToPng_calls (snd (post_convert pdfToPng req now)) = []"
  by (simp add: post_convert_def Let_def res_json_def pdfToPng_calls_def)

lemma empty_body_rejected:
  "body req = JUndefined \<or> body req = JBuffer [] \<Longrightarrow>
     status (fst (post_convert_raw pdfToPng req now)) = 400
     \<and> pdfToPng_calls (snd (post_convert_raw pdfToPng req now)) = []"
  by (auto simp: post_convert_raw_def Let_def res_json_def pdfToPng_calls_def)

text \<open>
  Claim C1 asks that every empty or missing payload is answered 400 before the rasterizer
  is called.  The guard of \<^verbatim>\<open>/convert\<close> tests \<^verbatim>\<open>!req.file.buffer\<close>, which is false for an
  empty buffer: a form whose \<^verbatim>\<open>pdf\<close> part has no bytes passes it, the rasterizer is called
  with the empty buffer, and the answer is not 400.  (\<^verbatim>\<open>/convert-raw\<close> does test the
  length.)
\<close>

theorem empty_upload_reaches_rasterizer:
  "pdfToPng_calls (snd (route_convert pdfToPng empty_upload now)) = [(JBuffer [], convert_options)]
   \<and> status (fst (route_convert pdfToPng empty_upload now)) \<noteq> 400"
  by (auto simp: route_convert_def upload_single_def size_limit_def empty_upload_def post_convert_def Let_def
      pdfToPng_calls_def catch_block_def res_json_def res_send_def png_headers_def
      split: sum.splits option.splits list.splits)

lemma express_raw_other_type:
  "\<not> is_pdf r \<Longrightarrow>
     express_raw r = Inr \<lparr>headers = http_headers r, req_file = None, body = JObject\<rparr>"
  by (simp add: express_raw_def split: option.splits)

lemma post_convert_raw_object:
  assumes "body req = JObject"
  shows "status (fst (post_convert_raw pdfToPng req now)) = 500"
    and "pdfToPng_calls (snd (post_convert_raw pdfToPng req now)) = [(JObject, convert_options)]"
  using assms
  by (auto simp: post_convert_raw_def Let_def png_headers_def pdfToPng_calls_def catch_block_def
      res_json_def split: sum.splits option.splits list.splits)

lemma not_pdf_plain_text: "\<not> is_pdf plain_text_post"
  by (simp add: is_pdf_def plain_text_post_def media_type_def trim_def to_lower_def Let_def)

text \<open>
  Claim C10.  A request to \<^verbatim>\<open>/convert-raw\<close> whose content type is not
  \<^verbatim>\<open>application/pdf\<close> reaches the handler with \<^verbatim>\<open>req.body = {}\<close>, which has no
  \<^verbatim>\<open>length\<close>; the guard lets it through, \<^verbatim>\<open>pdfToPng\<close> is called with the object, and the
  answer is 500 whatever the library does with it (if it returned pages, building the
  \<^verbatim>\<open>X-Original-Size\<close> header would throw).
\<close>

theorem other_content_type_bypasses_guard:
  assumes "\<not> is_pdf r"
  shows "express_raw r = Inr \<lparr>headers = http_headers r, req_file = None, body = JObject\<rparr>
         \<and> js_length JObject = None
         \<and> pdfToPng_calls (snd (route_convert_raw pdfToPng r now)) = [(JObject, convert_options)]
         \<and> status (fst (route_convert_raw pdfToPng r now)) = 500"
  using assms
  by (simp add: express_raw_other_type route_convert_raw_def post_convert_raw_object)

theorem other_content_type_bypasses_guard_witness:
  "\<not> is_pdf plain_text_post
   \<and> status (fst (route_convert_raw page_per_byte plain_text_post int)) = 500
   \<and> pdfToPng_calls (snd (route_convert_raw page_per_byte plain_text_post int))
       = [(JObject, convert_options)]"
  using other_content_type_bypasses_guard [OF not_pdf_plain_text, of page_per_byte int]
  by (simp add: not_pdf_plain_text)

subsection \<open>The failure bodies\<close>

lemma failure_500_fields:
  "status (fst (post_convert pdfToPng req now)) = 500 \<Longrightarrow>
     json_fields (fst (post_convert pdfToPng req now))
       = [''error'', ''message'', ''correlationId'', ''processingTimeMs'']"
  by (auto simp: post_convert_def Let_def json_fields_def catch_block_def res_json_def res_send_def
      split: if_splits sum.splits option.splits list.splits)

lemma failure_500_fields_raw:
  "status (fst (post_convert_raw pdfToPng req now)) = 500 \<Longrightarrow>
     json_fields (fst (post_convert_raw pdfToPng req now))
       = [''error'', ''message'', ''correlationId'', ''processingTimeMs'']"
  by (auto simp: post_convert_raw_def Let_def json_fields_def catch_block_def res_json_def res_send_def
      split: if_splits sum.splits option.splits list.splits)

text \<open>
  Claim C5 asks for the four fields \<^verbatim>\<open>error\<close>, \<^verbatim>\<open>message\<close>, \<^verbatim>\<open>correlationId\<close> and
  \<^verbatim>\<open>processingTimeMs\<close> in every failure body.  The 500 bodies have them; the 400 body of
  a form without a file has \<^verbatim>\<open>error\<close> and \<^verbatim>\<open>correlationId\<close> only.
\<close>

theorem missing_file_body_lacks_fields:
  "status (fst (route_convert pdfToPng no_file_post now)) = 400
   \<and> json_fields (fst (route_convert pdfToPng no_file_post now)) = [''error'', ''correlationId'']"
  by (simp add: route_convert_def upload_single_def no_file_post_def post_convert_def Let_def
      json_fields_def res_json_def)

subsection \<open>The pages rendered\<close>

lemma convertPdfToPng_Inr_pages:
  "convertPdfToPng lib loaded v cid = (Inr png, evs) \<Longrightarrow>
     pages_fetched evs = [1] \<and> renders evs = 1"
  by (auto simp: convertPdfToPng_def Let_def pages_fetched_def renders_def initPdfJs_def
      split: sum.splits option.splits prod.splits if_splits)

text \<open>
  A 200 from the second build means one \<^verbatim>\<open>getPage(1)\<close> and one \<^verbatim>\<open>render\<close>: that build
  fetches the first page by its number.
\<close>

lemma post_convert_canvas_200:
  assumes "status (fst (fst (post_convert_canvas lib loaded req now))) = 200"
  shows "pages_fetched (snd (fst (post_convert_canvas lib loaded req now))) = [1]
         \<and> renders (snd (fst (post_convert_canvas lib loaded req now))) = 1
         \<and> (\<exists>png. output_image (fst (fst (post_convert_canvas lib loaded req now))) = Some png)"
proof -
  let ?buf = "case req_file req of None \<Rightarrow> JUndefined | Some f \<Rightarrow> buffer f"
  from assms have g: "\<not> (req_file req = None \<or> \<not> truthy ?buf)"
    by (auto simp: post_convert_canvas_def Let_def res_json_def split: if_splits)
  obtain r evs where c: "convertPdfToPng lib loaded ?buf (correlationId req) = (r, evs)"
    by (cases "convertPdfToPng lib loaded ?buf (correlationId req)")
  from assms g c obtain png where r: "r = Inr png"
    by (cases r) (auto simp: post_convert_canvas_def Let_def)
  from convertPdfToPng_Inr_pages[OF c[unfolded r]] have p: "pages_fetched evs = [1]" "renders evs = 1"
    by simp_all
  from assms g c r obtain hs where
    hs: "png_headers (correlationId req) ?buf png (now 1 - now 0) = Inr hs"
    by (auto simp: post_convert_canvas_def Let_def split: sum.splits)
  have "fst (post_convert_canvas lib loaded req now)
          = (res_send hs png,
             ConsoleLog (''['' @ correlationId req @ ''] PDF conversion request received, size: ''
                         @ js_toString (int (length_or_zero ?buf)) @ '' bytes'')
             # evs @ [ConsoleLog (''['' @ correlationId req @ ''] Conversion successful: '' @ template_length ?buf
                       @ '' bytes PDF -> '' @ js_toString (int (length png))
                       @ '' bytes PNG in '' @ js_toString (now 1 - now 0) @ ''ms'')])"
    using g c r hs by (simp add: post_convert_canvas_def Let_def)
  with p show ?thesis
    by (simp add: renders_def pages_fetched_def output_image_def res_send_def)
qed

lemma post_convert_raw_canvas_200:
  assumes "status (fst (fst (post_convert_raw_canvas lib loaded req now))) = 200"
  shows "pages_fetched (snd (fst (post_convert_raw_canvas lib loaded req now))) = [1]
         \<and> renders (snd (fst (post_convert_raw_canvas lib loaded req now))) = 1
         \<and> (\<exists>png. output_image (fst (fst (post_convert_raw_canvas lib loaded req now))) = Some png)"
proof -
  from assms have g: "\<not> (\<not> truthy (body req) \<or> js_length (body req) = Some 0)"
    by (auto simp: post_convert_raw_canvas_def Let_def res_json_def split: if_splits)
  obtain r evs where c: "convertPdfToPng lib loaded (body req) (correlationId req) = (r, evs)"
    by (cases "convertPdfToPng lib loaded (body req) (correlationId req)")
  from assms g c obtain png where r: "r = Inr png"
    by (cases r) (auto simp: post_convert_raw_canvas_def Let_def)
  from convertPdfToPng_Inr_pages[OF c[unfolded r]] have p: "pages_fetched evs = [1]" "renders evs = 1"
    by simp_all
  from assms g c r obtain hs where
    hs: "png_headers (correlationId req) (body req) png (now 1 - now 0) = Inr hs"
    by (auto simp: post_convert_raw_canvas_def Let_def split: sum.splits)
  have "fst (post_convert_raw_canvas lib loaded req now)
          = (res_send hs png,
             ConsoleLog (''['' @ correlationId req @ ''] Raw PDF conversion request received, size: ''
                         @ js_toString (int (length_or_zero (body req))) @ '' bytes'')
             # evs @ [ConsoleLog (''['' @ correlationId req @ ''] Raw conversion successful: ''
                       @ template_length (body req)
                       @ '' bytes PDF -> '' @ js_toString (int (length png))
                       @ '' bytes PNG in '' @ js_toString (now 1 - now 0) @ ''ms'')])"
    using g c r hs by (simp add: post_convert_raw_canvas_def Let_def)
  with p show ?thesis
    by (simp add: renders_def pages_fetched_def output_image_def res_send_def)
qed

text \<open>
  The first build sends the content of the first entry of whatever array the library
  resolves to, and drops the rest.
\<close>

lemma post_convert_first_page:
  assumes "req_file req = Some \<lparr>buffer = JBuffer d\<rparr>"
    and "pdfToPng (JBuffer d) convert_options = Inr (Some (p # ps))"
  shows "status (fst (post_convert pdfToPng req now)) = 200
         \<and> output_image (fst (post_convert pdfToPng req now)) = Some (content p)
         \<and> pdfToPng_calls (snd (post_convert pdfToPng req now)) = [(JBuffer d, convert_options)]"
  using assms
  by (simp add: post_convert_def Let_def png_headers_def res_send_def output_image_def
      pdfToPng_calls_def)


text \<open>
  Claim C2 asks that one page, page 1, is rendered whatever the document's length.  The
  first build means to say so with \<^verbatim>\<open>pagesRange: [1]\<close> in the options of \<^verbatim>\<open>pdfToPng\<close>; the
  library selects pages by \<^verbatim>\<open>pagesToProcess\<close>, which the object does not have.  For an
  upload of three pages the library is called once, with these options, renders and
  returns all three pages, and the handler sends the first; had the object named
  \<^verbatim>\<open>pagesToProcess: [1]\<close>, one page would have been rendered.
\<close>

theorem every_page_rendered_one_sent:
  "map_of convert_options ''pagesToProcess'' = None
   \<and> pdfToPng_calls (snd (post_convert page_per_byte three_page_upload now))
       = [(JBuffer [37, 80, 68], convert_options)]
   \<and> page_per_byte (JBuffer [37, 80, 68]) convert_options
       = Inr (Some [\<lparr>pageNumber = 1, content = [37]\<rparr>, \<lparr>pageNumber = 2, content = [80]\<rparr>,
                    \<lparr>pageNumber = 3, content = [68]\<rparr>])
   \<and> output_image (fst (post_convert page_per_byte three_page_upload now)) = Some [37]
   \<and> page_per_byte (JBuffer [37, 80, 68]) first_page_options
       = Inr (Some [\<lparr>pageNumber = 1, content = [37]\<rparr>])"
proof -
  have a: "page_per_byte (JBuffer [37, 80, 68]) convert_options
       = Inr (Some [\<lparr>pageNumber = 1, content = [37]\<rparr>, \<lparr>pageNumber = 2, content = [80]\<rparr>,
                    \<lparr>pageNumber = 3, content = [68]\<rparr>])"
    by (simp add: page_per_byte_simps)
  have b: "req_file three_page_upload = Some \<lparr>buffer = JBuffer [37, 80, 68]\<rparr>"
    by (simp add: three_page_upload_def)
  have c: "page_per_byte (JBuffer [37, 80, 68]) first_page_options
       = Inr (Some [\<lparr>pageNumber = 1, content = [37]\<rparr>])"
    by (simp add: page_per_byte_def first_page_options_def)
  from post_convert_first_page [of three_page_upload "[37, 80, 68]" page_per_byte
      "\<lparr>pageNumber = 1, content = [37]\<rparr>"
      "[\<lparr>pageNumber = 2, content = [80]\<rparr>, \<lparr>pageNumber = 3, content = [68]\<rparr>]" now]
    a b c no_pagesToProcess
  show ?thesis by simp
qed

subsection \<open>What the response depends on\<close>

lemma post_convert_output_depends_on_file:
  "status (fst (post_convert pdfToPng \<lparr>headers = h1, req_file = f, body = b1\<rparr> now1))
     = status (fst (post_convert pdfToPng \<lparr>headers = h2, req_file = f, body = b2\<rparr> now2))
   \<and> output_image (fst (post_convert pdfToPng \<lparr>headers = h1, req_file = f, body = b1\<rparr> now1))
     = output_image (fst (post_convert pdfToPng \<lparr>headers = h2, req_file = f, body = b2\<rparr> now2))"
  by (simp add: post_convert_def Let_def png_headers_def res_send_def res_json_def output_image_def
      catch_block_def split: sum.splits option.splits list.splits)

lemma post_convert_raw_output_depends_on_body:
  "status (fst (post_convert_raw pdfToPng \<lparr>headers = h1, req_file = f1, body = b\<rparr> now1))
     = status (fst (post_convert_raw pdfToPng \<lparr>headers = h2, req_file = f2, body = b\<rparr> now2))
   \<and> output_image (fst (post_convert_raw pdfToPng \<lparr>headers = h1, req_file = f1, body = b\<rparr> now1))
     = output_image (fst (post_convert_raw pdfToPng \<lparr>headers = h2, req_file = f2, body = b\<rparr> now2))"
  by (simp add: post_convert_raw_def Let_def png_headers_def res_send_def res_json_def output_image_def
      catch_block_def split: sum.splits option.splits list.splits)

lemma convertPdfToPng_result_independent:
  "fst (convertPdfToPng lib loaded1 v cid1) = fst (convertPdfToPng lib loaded2 v cid2)"
  by (simp add: convertPdfToPng_def Let_def split: sum.splits option.splits prod.splits)


lemma post_convert_canvas_outcome:
  "status (fst (fst (post_convert_canvas lib loaded req now)))
     = (if req_file req = None \<or> \<not> truthy (case req_file req of None \<Rightarrow> JUndefined | Some f \<Rightarrow> buffer f) then 400
        else case fst (convertPdfToPng lib False (case req_file req of None \<Rightarrow> JUndefined | Some f \<Rightarrow> buffer f) []) of
               Inl e \<Rightarrow> 500
             | Inr png \<Rightarrow> (case js_length (case req_file req of None \<Rightarrow> JUndefined | Some f \<Rightarrow> buffer f) of
                              None \<Rightarrow> 500 | Some n \<Rightarrow> 200))"
  "output_image (fst (fst (post_convert_canvas lib loaded req now)))
     = (if req_file req = None \<or> \<not> truthy (case req_file req of None \<Rightarrow> JUndefined | Some f \<Rightarrow> buffer f) then None
        else case fst (convertPdfToPng lib False (case req_file req of None \<Rightarrow> JUndefined | Some f \<Rightarrow> buffer f) []) of
               Inl e \<Rightarrow> None
             | Inr png \<Rightarrow> (case js_length (case req_file req of None \<Rightarrow> JUndefined | Some f \<Rightarrow> buffer f) of
                              None \<Rightarrow> None | Some n \<Rightarrow> Some png))"
proof -
  let ?buf = "case req_file req of None \<Rightarrow> JUndefined | Some f \<Rightarrow> buffer f"
  obtain r evs where c: "convertPdfToPng lib loaded ?buf (correlationId req) = (r, evs)"
    by (cases "convertPdfToPng lib loaded ?buf (correlationId req)")
  have r: "fst (convertPdfToPng lib False ?buf []) = r"
    using convertPdfToPng_result_independent [of lib False ?buf "[]" loaded "correlationId req"] c
    by simp
  show "status (fst (fst (post_convert_canvas lib loaded req now)))
     = (if req_file req = None \<or> \<not> truthy ?buf then 400
        else case fst (convertPdfToPng lib False ?buf []) of
               Inl e \<Rightarrow> 500
             | Inr png \<Rightarrow> (case js_length ?buf of None \<Rightarrow> 500 | Some n \<Rightarrow> 200))"
    unfolding r using c
    by (simp add: post_convert_canvas_def Let_def png_headers_def res_send_def res_json_def
        split: sum.splits option.splits)
  show "output_image (fst (fst (post_convert_canvas lib loaded req now)))
     = (if req_file req = None \<or> \<not> truthy ?buf then None
        else case fst (convertPdfToPng lib False ?buf []) of
               Inl e \<Rightarrow> None
             | Inr png \<Rightarrow> (case js_length ?buf of None \<Rightarrow> None | Some n \<Rightarrow> Some png))"
    unfolding r using c
    by (simp add: post_convert_canvas_def Let_def png_headers_def res_send_def res_json_def
        output_image_def catch_block_def split: sum.splits option.splits)
qed

lemma post_convert_raw_canvas_outcome:
  "status (fst (fst (post_convert_raw_canvas lib loaded req now)))
     = (if \<not> truthy (body req) \<or> js_length (body req) = Some 0 then 400
        else case fst (convertPdfToPng lib False (body req) []) of
               Inl e \<Rightarrow> 500
             | Inr png \<Rightarrow> (case js_length (body req) of None \<Rightarrow> 500 | Some n \<Rightarrow> 200))"
  "output_image (fst (fst (post_convert_raw_canvas lib loaded req now)))
     = (if \<not> truthy (body req) \<or> js_length (body req) = Some 0 then None
        else case fst (convertPdfToPng lib False (body req) []) of
               Inl e \<Rightarrow> None
             | Inr png \<Rightarrow> (case js_length (body req) of None \<Rightarrow> None | Some n \<Rightarrow> Some png))"
proof -
  obtain r evs where c: "convertPdfToPng lib loaded (body req) (correlationId req) = (r, evs)"
    by (cases "convertPdfToPng lib loaded (body req) (correlationId req)")
  have r: "fst (convertPdfToPng lib False (body req) []) = r"
    using convertPdfToPng_result_independent [of lib False "body req" "[]" loaded "correlationId req"] c
    by simp
  show "status (fst (fst (post_convert_raw_canvas lib loaded req now)))
     = (if \<not> truthy (body req) \<or> js_length (body req) = Some 0 then 400
        else case fst (convertPdfToPng lib False (body req) []) of
               Inl e \<Rightarrow> 500
             | Inr png \<Rightarrow> (case js_length (body req) of None \<Rightarrow> 500 | Some n \<Rightarrow> 200))"
    unfolding r using c
    by (simp add: post_convert_raw_canvas_def Let_def png_headers_def res_send_def res_json_def
        split: sum.splits option.splits)
  show "output_image (fst (fst (post_convert_raw_canvas lib loaded req now)))
     = (if \<not> truthy (body req) \<or> js_length (body req) = Some 0 then None
        else case fst (convertPdfToPng lib False (body req) []) of
               Inl e \<Rightarrow> None
             | Inr png \<Rightarrow> (case js_length (body req) of None \<Rightarrow> None | Some n \<Rightarrow> Some png))"
    unfolding r using c
    by (simp add: post_convert_raw_canvas_def Let_def png_headers_def res_send_def res_json_def
        output_image_def catch_block_def split: sum.splits option.splits)
qed

text \<open>
  Claim C8 asks that converting the same input twice gives the same bytes.  Whether a
  rasterizer returns the same bytes on every run is a property of the libraries, which
  are parameters here, and a parameter is a function: these definitions cannot say
  otherwise, so nothing is proved of it.  What the handlers of the two in-process
  builds add is proved: the status and the image of a response depend on the upload (or
  the raw body) and on nothing else of the request, not on its headers, its correlation
  id, the clock or the state of the lazily loaded library.
\<close>

lemma handlers_add_no_dependence:
  "status (fst (post_convert pdfToPng \<lparr>headers = h1, req_file = f, body = b1\<rparr> now1))
     = status (fst (post_convert pdfToPng \<lparr>headers = h2, req_file = f, body = b2\<rparr> now2))
   \<and> output_image (fst (post_convert pdfToPng \<lparr>headers = h1, req_file = f, body = b1\<rparr> now1))
     = output_image (fst (post_convert pdfToPng \<lparr>headers = h2, req_file = f, body = b2\<rparr> now2))
   \<and> status (fst (post_convert_raw pdfToPng \<lparr>headers = h1, req_file = f1, body = b\<rparr> now1))
     = status (fst (post_convert_raw pdfToPng \<lparr>headers = h2, req_file = f2, body = b\<rparr> now2))
   \<and> output_image (fst (post_convert_raw pdfToPng \<lparr>headers = h1, req_file = f1, body = b\<rparr> now1))
     = output_image (fst (post_convert_raw pdfToPng \<lparr>headers = h2, req_file = f2, body = b\<rparr> now2))
   \<and> status (fst (fst (post_convert_canvas lib l1 \<lparr>headers = h1, req_file = f, body = b1\<rparr> now1)))
     = status (fst (fst (post_convert_canvas lib l2 \<lparr>headers = h2, req_file = f, body = b2\<rparr> now2)))
   \<and> output_image (fst (fst (post_convert_canvas lib l1 \<lparr>headers = h1, req_file = f, body = b1\<rparr> now1)))
     = output_image (fst (fst (post_convert_canvas lib l2 \<lparr>headers = h2, req_file = f, body = b2\<rparr> now2)))
   \<and> status (fst (fst (post_convert_raw_canvas lib l1 \<lparr>headers = h1, req_file = f1, body = b\<rparr> now1)))
     = status (fst (fst (post_convert_raw_canvas lib l2 \<lparr>headers = h2, req_file = f2, body = b\<rparr> now2)))
   \<and> output_image (fst (fst (post_convert_raw_canvas lib l1 \<lparr>headers = h1, req_file = f1, body = b\<rparr> now1)))
     = output_image (fst (fst (post_convert_raw_canvas lib l2 \<lparr>headers = h2, req_file = f2, body = b\<rparr> now2)))"
  using post_convert_output_depends_on_file [of pdfToPng h1 f b1 now1 h2 b2 now2]
    post_convert_raw_output_depends_on_body [of pdfToPng h1 f1 b now1 h2 f2 now2]
  by (simp add: post_convert_canvas_outcome post_convert_raw_canvas_outcome
      cong: sum.case_cong option.case_cong)

subsection \<open>Documents without pages\<close>

lemma no_pages_convert:
  assumes "req_file req = Some f" and "truthy (buffer f)"
    and "pdfToPng (buffer f) convert_options = Inr None \<or> pdfToPng (buffer f) convert_options = Inr (Some [])"
  shows "fst (post_convert pdfToPng req now)
           = conversion_failed ''No pages converted from PDF'' (correlationId req) (now 1 - now 0)"
  using assms
  by (auto simp: post_convert_def Let_def catch_block_def conversion_failed_def errorMessage_def)

lemma no_pages_convert_raw:
  assumes "truthy (body req)" and "js_length (body req) \<noteq> Some 0"
    and "pdfToPng (body req) convert_options = Inr None \<or> pdfToPng (body req) convert_options = Inr (Some [])"
  shows "fst (post_convert_raw pdfToPng req now)
           = conversion_failed ''No pages converted from PDF'' (correlationId req) (now 1 - now 0)"
  using assms
  by (auto simp: post_convert_raw_def Let_def catch_block_def conversion_failed_def errorMessage_def)

lemma no_pages_canvas:
  assumes "req_file req = Some f" and "truthy (buffer f)"
    and "getDocument lib (buffer f) = Inr pdf" and "numPages lib pdf = 0"
  shows "fst (fst (post_convert_canvas lib loaded req now))
           = conversion_failed ''PDF has no pages'' (correlationId req) (now 1 - now 0)"
  using assms
  by (simp add: post_convert_canvas_def convertPdfToPng_def Let_def catch_block_def
      conversion_failed_def errorMessage_def)

lemma no_pages_poppler:
  assumes "req_file req = Some f" and "truthy (buffer f)"
    and "writeFileSync fs (tempPdfPath (correlationId req)) (buffer f) = Inr fs1"
    and "convert fs1 (tempPdfPath (correlationId req))
           (poppler_convert_options (tempOutputDir (correlationId req))) = (Inr r, fs2)"
    and "r = Falsy \<or> r = Sized 0"
  shows "fst (fst (post_convert_poppler convert fs req now))
           = conversion_failed ''No pages converted from PDF'' (correlationId req) (now 1 - now 0)"
  using assms
  by (auto simp: post_convert_poppler_def Let_def catch_block_def conversion_failed_def errorMessage_def)

lemma every_failure_same_error:
  "status (fst (post_convert pdfToPng req now)) = 500 \<Longrightarrow>
     json_field (fst (post_convert pdfToPng req now)) ''error'' = Some (JsonString ''PDF conversion failed'')"
  by (auto simp: post_convert_def Let_def json_field_def catch_block_def res_json_def res_send_def
      split: if_splits sum.splits option.splits list.splits)

subsection \<open>Scratch paths and what stays on disk\<close>

lemma split_on_no_sep: "c \<notin> set s \<Longrightarrow> split_on c s = [s]"
  by (induction s) auto

lemma split_on_append: "c \<notin> set s \<Longrightarrow> split_on c (s @ c # t) = s # split_on c t"
  by (induction s) auto

lemma split_tmp: "CHR ''/'' \<notin> set s \<Longrightarrow> split_on CHR ''/'' (''/tmp/'' @ s) = [[], ''tmp'', s]"
  using split_on_append [of "CHR ''/''" "[]" "''tmp/'' @ s"]
    split_on_append [of "CHR ''/''" "''tmp''" s] split_on_no_sep [of "CHR ''/''" s]
  by simp

lemma path_join_tmp:
  assumes "plain_segment s"
  shows "path_join ''/tmp'' s = ''/tmp/'' @ s"
proof -
  from assms have s: "CHR ''/'' \<notin> set s" "s \<noteq> []" "s \<noteq> ''.''" "s \<noteq> ''..''"
    by (simp_all add: plain_segment_def)
  have n: "normalizeString (''/tmp/'' @ s) False = ''tmp/'' @ s"
    unfolding normalizeString_def split_tmp [OF s(1)] using s by (simp add: normalize_step_def)
  from s have "last s \<noteq> CHR ''/''" by (metis last_in_set)
  then have l: "last (''/tmp/'' @ s) \<noteq> CHR ''/''" using s by simp
  have "path_normalize (''/tmp/'' @ s) = ''/tmp/'' @ s"
    using l n by (simp add: path_normalize_def Let_def)
  then show ?thesis using s by (simp add: path_join_def)
qed

lemma plain_pdf: "CHR ''/'' \<notin> set cid \<Longrightarrow> plain_segment (cid @ ''.pdf'')"
  by (cases cid) (auto simp: plain_segment_def)

lemma plain_output: "CHR ''/'' \<notin> set cid \<Longrightarrow> plain_segment (''output-'' @ cid)"
  by (auto simp: plain_segment_def)

lemma tempPdfPath_plain: "CHR ''/'' \<notin> set cid \<Longrightarrow> tempPdfPath cid = ''/tmp/'' @ cid @ ''.pdf''"
  by (simp add: tempPdfPath_def path_join_tmp plain_pdf)

lemma tempOutputDir_plain: "CHR ''/'' \<notin> set cid \<Longrightarrow> tempOutputDir cid = ''/tmp/output-'' @ cid"
  using path_join_tmp [OF plain_output, of cid] by (simp add: tempOutputDir_def)

lemma split_tmp2:
  assumes "CHR ''/'' \<notin> set a" and "CHR ''/'' \<notin> set b"
  shows "split_on CHR ''/'' (''/tmp/'' @ a @ ''/'' @ b) = [[], ''tmp'', a, b]"
proof -
  have "split_on CHR ''/'' (''/tmp/'' @ a @ ''/'' @ b)
          = [] # split_on CHR ''/'' (''tmp/'' @ a @ ''/'' @ b)"
    using split_on_append [of "CHR ''/''" "[]" "''tmp/'' @ a @ ''/'' @ b"] by simp
  also have "split_on CHR ''/'' (''tmp/'' @ a @ ''/'' @ b) = ''tmp'' # split_on CHR ''/'' (a @ ''/'' @ b)"
    using split_on_append [of "CHR ''/''" "''tmp''" "a @ ''/'' @ b"] by simp
  also have "split_on CHR ''/'' (a @ ''/'' @ b) = a # split_on CHR ''/'' b"
    using split_on_append [OF assms(1), of b] by simp
  also have "split_on CHR ''/'' b = [b]"
    by (rule split_on_no_sep) (rule assms(2))
  finally show ?thesis .
qed

lemma path_join_tmp2:
  assumes "plain_segment a" and "plain_segment b"
  shows "path_join (''/tmp/'' @ a) b = ''/tmp/'' @ a @ ''/'' @ b"
proof -
  from assms have a: "CHR ''/'' \<notin> set a" "a \<noteq> []" "a \<noteq> ''.''" "a \<noteq> ''..''"
    and b: "CHR ''/'' \<notin> set b" "b \<noteq> []" "b \<noteq> ''.''" "b \<noteq> ''..''"
    by (simp_all add: plain_segment_def)
  have n: "normalizeString (''/tmp/'' @ a @ ''/'' @ b) False = ''tmp/'' @ a @ ''/'' @ b"
    unfolding normalizeString_def split_tmp2 [OF a(1) b(1)] using a b
    by (simp add: normalize_step_def)
  from b have "last b \<noteq> CHR ''/''" by (metis last_in_set)
  then have l: "last (''/tmp/'' @ a @ ''/'' @ b) \<noteq> CHR ''/''" using b by simp
  have "path_normalize (''/tmp/'' @ a @ ''/'' @ b) = ''/tmp/'' @ a @ ''/'' @ b"
    using l n by (simp add: path_normalize_def Let_def)
  then show ?thesis using b by (simp add: path_join_def)
qed

lemma plain_raw_pdf: "CHR ''/'' \<notin> set cid \<Longrightarrow> plain_segment (cid @ ''-raw.pdf'')"
  by (cases cid) (auto simp: plain_segment_def)

lemma plain_raw_output: "CHR ''/'' \<notin> set cid \<Longrightarrow> plain_segment (''output-'' @ cid @ ''-raw'')"
  by (auto simp: plain_segment_def)

lemma tempPdfPath_raw_plain:
  "CHR ''/'' \<notin> set cid \<Longrightarrow> tempPdfPath_raw cid = ''/tmp/'' @ cid @ ''-raw.pdf''"
  by (simp add: tempPdfPath_raw_def path_join_tmp plain_raw_pdf)

lemma tempOutputDir_raw_plain:
  "CHR ''/'' \<notin> set cid \<Longrightarrow> tempOutputDir_raw cid = ''/tmp/output-'' @ cid @ ''-raw''"
  using path_join_tmp [OF plain_raw_output, of cid] by (simp add: tempOutputDir_raw_def)

lemma pngPath_plain:
  assumes "CHR ''/'' \<notin> set cid"
  shows "path_join (tempOutputDir cid) ''page-1.png'' = ''/tmp/output-'' @ cid @ ''/page-1.png''"
proof -
  have "plain_segment ''page-1.png''" by (simp add: plain_segment_def)
  from path_join_tmp2 [OF plain_output [OF assms] this] show ?thesis
    by (simp add: tempOutputDir_plain [OF assms])
qed

lemma correlationId_not_empty: "correlationId req \<noteq> []"
  by (simp add: correlationId_def split: option.splits)

lemma correlationId_missing:
  "map_of (headers req) ''x-correlation-id'' = None \<Longrightarrow> correlationId req = ''unknown''"
  by (simp add: correlationId_def)

lemma anonymous_paths:
  "correlationId (anonymous_upload d) = ''unknown''"
  "req_file (anonymous_upload d) = Some \<lparr>buffer = JBuffer d\<rparr>"
  "tempPdfPath ''unknown'' = ''/tmp/unknown.pdf''"
  "tempOutputDir ''unknown'' = ''/tmp/output-unknown''"
  "dirname ''/tmp/unknown.pdf'' = ''/tmp''"
  by (simp_all add: anonymous_upload_def correlationId_def tempPdfPath_plain tempOutputDir_plain
      dirname_def)

text \<open>
  Claim C3 asks that two requests never share scratch paths, also when they carry the
  same correlation id or none.  The paths are computed from the correlation id alone:
  two different uploads without the header both get \<^verbatim>\<open>/tmp/unknown.pdf\<close> and
  \<^verbatim>\<open>/tmp/output-unknown\<close> and both call the converter on them, the second one's write
  replaces the first one's input file, and two uploads with the same id share their paths
  as well.
\<close>

theorem same_id_same_scratch_paths:
  "anonymous_upload [1] \<noteq> anonymous_upload [2]
   \<and> scratch_paths (anonymous_upload [1]) = [''/tmp/unknown.pdf'', ''/tmp/output-unknown'']
   \<and> scratch_paths (anonymous_upload [2]) = [''/tmp/unknown.pdf'', ''/tmp/output-unknown'']
   \<and> PopplerConvert ''/tmp/unknown.pdf'' (poppler_convert_options ''/tmp/output-unknown'')
       \<in> set (snd (fst (post_convert_poppler rejecting tmp_only (anonymous_upload [1]) int)))
   \<and> PopplerConvert ''/tmp/unknown.pdf'' (poppler_convert_options ''/tmp/output-unknown'')
       \<in> set (snd (fst (post_convert_poppler rejecting tmp_only (anonymous_upload [2]) int)))
   \<and> (case writeFileSync tmp_only (tempPdfPath (correlationId (anonymous_upload [1]))) (JBuffer [1]) of
        Inl e \<Rightarrow> Inl e
      | Inr fs1 \<Rightarrow>
          (case writeFileSync fs1 (tempPdfPath (correlationId (anonymous_upload [2]))) (JBuffer [2]) of
             Inl e \<Rightarrow> Inl e
           | Inr fs2 \<Rightarrow> readFileSync fs2 (tempPdfPath (correlationId (anonymous_upload [1])))))
       = Inr [2]
   \<and> named_upload ''abc-123'' [1] \<noteq> named_upload ''abc-123'' [2]
   \<and> scratch_paths (named_upload ''abc-123'' [1]) = scratch_paths (named_upload ''abc-123'' [2])"
proof -
  have "anonymous_upload [1] \<noteq> anonymous_upload [2]"
    "named_upload ''abc-123'' [1] \<noteq> named_upload ''abc-123'' [2]"
    "scratch_paths (named_upload ''abc-123'' [1]) = scratch_paths (named_upload ''abc-123'' [2])"
    by (simp_all add: anonymous_upload_def named_upload_def scratch_paths_def correlationId_def)
  moreover have "scratch_paths (anonymous_upload d) = [''/tmp/unknown.pdf'', ''/tmp/output-unknown'']" for d
    by (simp add: scratch_paths_def anonymous_paths)
  moreover have "PopplerConvert ''/tmp/unknown.pdf'' (poppler_convert_options ''/tmp/output-unknown'')
       \<in> set (snd (fst (post_convert_poppler rejecting tmp_only (anonymous_upload d) int)))" for d
    by (simp add: post_convert_poppler_def Let_def anonymous_paths writeFileSync_def tmp_only_def
        is_directory_def is_file_def missing_def rejecting_def catch_block_def)
  moreover have "(case writeFileSync tmp_only (tempPdfPath (correlationId (anonymous_upload [1]))) (JBuffer [1]) of
        Inl e \<Rightarrow> Inl e
      | Inr fs1 \<Rightarrow>
          (case writeFileSync fs1 (tempPdfPath (correlationId (anonymous_upload [2]))) (JBuffer [2]) of
             Inl e \<Rightarrow> Inl e
           | Inr fs2 \<Rightarrow> readFileSync fs2 (tempPdfPath (correlationId (anonymous_upload [1])))))
       = Inr [2]"
    by (simp add: anonymous_paths writeFileSync_def tmp_only_def is_directory_def is_file_def missing_def remove_entry_def
        readFileSync_def)
  ultimately show ?thesis by simp
qed

text \<open>
  Claim C3, as the code has it.  The scratch paths of a request are a function of its
  route and its correlation id (\<^verbatim>\<open>unknown\<close> when the header is missing); nothing else
  enters them.  On ids without \<^verbatim>\<open>/\<close> each path is injective in the id: two requests to
  the same route with different such ids get different input files and different output
  directories.
\<close>

theorem scratch_paths_follow_id:
  "(correlationId r1 = correlationId r2 \<longrightarrow>
      scratch_paths r1 = scratch_paths r2 \<and> scratch_paths_raw r1 = scratch_paths_raw r2)
   \<and> (map_of (headers r1) ''x-correlation-id'' = None \<longrightarrow>
      scratch_paths r1 = [''/tmp/unknown.pdf'', ''/tmp/output-unknown'']
      \<and> scratch_paths_raw r1 = [''/tmp/unknown-raw.pdf'', ''/tmp/output-unknown-raw''])
   \<and> (CHR ''/'' \<notin> set (correlationId r1) \<and> CHR ''/'' \<notin> set (correlationId r2)
       \<and> correlationId r1 \<noteq> correlationId r2 \<longrightarrow>
      tempPdfPath (correlationId r1) \<noteq> tempPdfPath (correlationId r2)
      \<and> tempOutputDir (correlationId r1) \<noteq> tempOutputDir (correlationId r2)
      \<and> tempPdfPath_raw (correlationId r1) \<noteq> tempPdfPath_raw (correlationId r2)
      \<and> tempOutputDir_raw (correlationId r1) \<noteq> tempOutputDir_raw (correlationId r2))"
  by (auto simp: scratch_paths_def scratch_paths_raw_def correlationId_missing
      tempPdfPath_plain tempOutputDir_plain tempPdfPath_raw_plain tempOutputDir_raw_plain)

theorem scratch_paths_follow_id_witness:
  "correlationId (anonymous_upload [1]) = correlationId (anonymous_upload [2])
   \<and> map_of (headers (anonymous_upload [1])) ''x-correlation-id'' = None
   \<and> scratch_paths (anonymous_upload [1]) = scratch_paths (anonymous_upload [2])
   \<and> CHR ''/'' \<notin> set (correlationId (named_upload ''a'' [1]))
   \<and> CHR ''/'' \<notin> set (correlationId (named_upload ''b'' [1]))
   \<and> correlationId (named_upload ''a'' [1]) \<noteq> correlationId (named_upload ''b'' [1])
   \<and> tempPdfPath (correlationId (named_upload ''a'' [1])) \<noteq> tempPdfPath (correlationId (named_upload ''b'' [1]))
   \<and> tempOutputDir (correlationId (named_upload ''a'' [1])) \<noteq> tempOutputDir (correlationId (named_upload ''b'' [1]))"
  using scratch_paths_follow_id [of "anonymous_upload [1]" "anonymous_upload [2]"]
    scratch_paths_follow_id [of "named_upload ''a'' [1]" "named_upload ''b'' [1]"]
  by (simp add: anonymous_upload_def named_upload_def correlationId_def)

text \<open>
  Different ids can still meet: through \<^verbatim>\<open>..\<close> segments, across the two routes, and
  between one request's input file and another's output directory.
\<close>

lemma distinct_ids_may_collide:
  "tempPdfPath ''x/../unknown'' = tempPdfPath ''unknown''"
  "tempPdfPath ''x-raw'' = tempPdfPath_raw ''x''"
  "tempPdfPath ''output-x'' = tempOutputDir ''x.pdf''"
  by (simp_all add: tempPdfPath_def tempPdfPath_raw_def tempOutputDir_def path_join_def
      path_normalize_def normalizeString_def normalize_step_def Let_def)

lemma example_paths:
  "correlationId example_request = ''abc-123''"
  "tempPdfPath ''abc-123'' = ''/tmp/abc-123.pdf''"
  "tempOutputDir ''abc-123'' = ''/tmp/output-abc-123''"
  "path_join ''/tmp/output-abc-123'' ''page-1.png'' = ''/tmp/output-abc-123/page-1.png''"
  "path_join ''/tmp/output-abc-123'' ''page-2.png'' = ''/tmp/output-abc-123/page-2.png''"
  "dirname ''/tmp/abc-123.pdf'' = ''/tmp''"
  using pngPath_plain [of "''abc-123''"] path_join_tmp2 [of "''output-abc-123''" "''page-2.png''"]
  by (simp_all add: example_request_def correlationId_def tempPdfPath_plain tempOutputDir_plain
      dirname_def plain_segment_def)

lemma example_write:
  "writeFileSync tmp_only ''/tmp/abc-123.pdf'' (JBuffer [37, 80])
     = Inr [(''/tmp/abc-123.pdf'', File [37, 80]), (''/tmp'', Dir)]"
  by (simp add: writeFileSync_def tmp_only_def example_paths is_directory_def is_file_def missing_def remove_entry_def)

lemma example_request_fields:
  "req_file example_request = Some \<lparr>buffer = JBuffer [37, 80]\<rparr>"
  "body example_request = JBuffer [37, 80]"
  by (simp_all add: example_request_def)

lemma failure_skips_clean_up:
  assumes "req_file req = Some f" and "truthy (buffer f)"
    and "writeFileSync fs (tempPdfPath (correlationId req)) (buffer f) = Inr fs1"
    and "convert fs1 (tempPdfPath (correlationId req))
           (poppler_convert_options (tempOutputDir (correlationId req))) = (Inl e, fs2)"
  shows "snd (post_convert_poppler convert fs req now) = fs2"
    and "status (fst (fst (post_convert_poppler convert fs req now))) = 500"
  using assms by (simp_all add: post_convert_poppler_def Let_def)

lemma writeFileSync_Inr:
  "writeFileSync fs p v = Inr fs1 \<Longrightarrow> \<exists>d. v = JBuffer d \<and> map_of fs1 p = Some (File d)"
  by (auto simp: writeFileSync_def split: js_value.splits if_splits)

text \<open>
  In this build a form whose file part is empty passes the guard as well: the empty input
  file is written, the converter is called on it, and after its rejection the file stays.
\<close>

lemma empty_upload_writes_scratch_file:
  "status (fst (fst (route_convert_poppler rejecting tmp_only empty_upload now))) = 500"
  "PopplerConvert ''/tmp/unknown.pdf'' (poppler_convert_options ''/tmp/output-unknown'')
     \<in> set (snd (fst (route_convert_poppler rejecting tmp_only empty_upload now)))"
  "snd (route_convert_poppler rejecting tmp_only empty_upload now)
     = [(''/tmp/unknown.pdf'', File []), (''/tmp'', Dir)]"
proof -
  have u: "upload_single empty_upload = Inr (anonymous_upload [])"
    by (simp add: upload_single_def size_limit_def empty_upload_def anonymous_upload_def)
  show "status (fst (fst (route_convert_poppler rejecting tmp_only empty_upload now))) = 500"
    "PopplerConvert ''/tmp/unknown.pdf'' (poppler_convert_options ''/tmp/output-unknown'')
       \<in> set (snd (fst (route_convert_poppler rejecting tmp_only empty_upload now)))"
    "snd (route_convert_poppler rejecting tmp_only empty_upload now)
       = [(''/tmp/unknown.pdf'', File []), (''/tmp'', Dir)]"
    by (simp_all add: route_convert_poppler_def u post_convert_poppler_def Let_def anonymous_paths
        writeFileSync_def tmp_only_def is_directory_def is_file_def missing_def remove_entry_def rejecting_def catch_block_def
        res_json_def)
qed

text \<open>
  Claim C4 asks that the temporary input file and the output directory are removed on
  every exit path.  The removals stand inside the \<^verbatim>\<open>try\<close> block, after the output has
  been read; the \<^verbatim>\<open>catch\<close> block removes nothing.  When the converter rejects the
  document, the answer is 500 and the input file written for it stays on disk.
\<close>

theorem input_file_left_after_failure:
  "status (fst (fst (post_convert_poppler rejecting tmp_only example_request int))) = 500
   \<and> snd (post_convert_poppler rejecting tmp_only example_request int)
       = [(''/tmp/abc-123.pdf'', File [37, 80]), (''/tmp'', Dir)]
   \<and> map_of (snd (post_convert_poppler rejecting tmp_only example_request int)) ''/tmp/abc-123.pdf''
       = Some (File [37, 80])"
  by (simp add: post_convert_poppler_def Let_def example_paths example_write rejecting_def
      example_request_fields)

text \<open>
  On the success path the three removals run: after a converter that wrote exactly the
  expected file, the disk is as it was before the request.
\<close>

lemma example_poppler_success:
  "status (fst (fst (post_convert_poppler writes_page tmp_only example_request int))) = 200"
  "output_image (fst (fst (post_convert_poppler writes_page tmp_only example_request int))) = Some [37, 80]"
  "snd (post_convert_poppler writes_page tmp_only example_request int) = tmp_only"
  by (simp_all add: post_convert_poppler_def Let_def example_paths example_write writes_page_def
      poppler_convert_options_def readFileSync_def clean_up_def unlinkSync_def rmdirSync_def
      remove_entry_def has_entries_def png_headers_def res_send_def output_image_def
      example_request_fields)
     (simp_all add: tmp_only_def)

text \<open>
  A failing removal is logged and changes nothing in the answer: when the converter left
  a second file in the output directory, \<^verbatim>\<open>rmdirSync\<close> fails, the handler warns, and the
  answer is still 200 with the image; the directory and the extra file stay on disk.
\<close>

lemma example_clean_up_warning:
  "status (fst (fst (post_convert_poppler writes_two_pages tmp_only example_request int))) = 200"
  "output_image (fst (fst (post_convert_poppler writes_two_pages tmp_only example_request int)))
     = Some [37, 80]"
  "snd (post_convert_poppler writes_two_pages tmp_only example_request int)
     = [(''/tmp/output-abc-123/page-2.png'', File [37, 80]), (''/tmp/output-abc-123'', Dir), (''/tmp'', Dir)]"
  "ConsoleWarn ''[abc-123] Cleanup warning:''
     (''ENOTEMPTY: directory not empty, rmdir '' @ [CHR 0x27] @ ''/tmp/output-abc-123'' @ [CHR 0x27])
     \<in> set (snd (fst (post_convert_poppler writes_two_pages tmp_only example_request int)))"
  by (simp_all add: post_convert_poppler_def Let_def example_paths example_write writes_two_pages_def
      poppler_convert_options_def readFileSync_def clean_up_def unlinkSync_def rmdirSync_def
      remove_entry_def has_entries_def png_headers_def res_send_def output_image_def
      example_request_fields fs_error_def)

subsection \<open>How a document without pages is answered\<close>

lemma missing_output_poppler:
  assumes "req_file req = Some f" and "truthy (buffer f)"
    and "writeFileSync fs (tempPdfPath (correlationId req)) (buffer f) = Inr fs1"
    and "convert fs1 (tempPdfPath (correlationId req))
           (poppler_convert_options (tempOutputDir (correlationId req))) = (Inr (Sized n), fs2)"
    and "n \<noteq> 0"
    and "map_of fs2 (path_join (tempOutputDir (correlationId req)) ''page-1.png'') = None"
  shows "fst (fst (post_convert_poppler convert fs req now))
           = conversion_failed
               (message (missing fs2 ''open''
                           (path_join (tempOutputDir (correlationId req)) ''page-1.png'')))
               (correlationId req) (now 1 - now 0)"
  using assms
  by (simp add: post_convert_poppler_def Let_def catch_block_def conversion_failed_def
      errorMessage_def readFileSync_def missing_def fs_error_def)

text \<open>
  Claim C6 asks that a document without pages fails with an error kind of its own,
  \<^verbatim>\<open>NoPagesRendered\<close>, told apart from the other kinds.  The failure body has no kind:
  its fields are \<^verbatim>\<open>error\<close>, \<^verbatim>\<open>message\<close>, \<^verbatim>\<open>correlationId\<close> and \<^verbatim>\<open>processingTimeMs\<close>, and
  status and \<^verbatim>\<open>error\<close> are the same when the library finds no page and when it rejects the
  document.
\<close>

theorem no_pages_not_told_apart:
  "json_field (fst (post_convert no_pages_returned example_request int)) ''kind'' = None
   \<and> json_fields (fst (post_convert no_pages_returned example_request int))
       = [''error'', ''message'', ''correlationId'', ''processingTimeMs'']
   \<and> status (fst (post_convert no_pages_returned example_request int))
       = status (fst (post_convert rejects_structure example_request int))
   \<and> json_field (fst (post_convert no_pages_returned example_request int)) ''error''
       = json_field (fst (post_convert rejects_structure example_request int)) ''error''"
  by (simp add: post_convert_def no_pages_returned_def rejects_structure_def example_request_def
      Let_def catch_block_def res_json_def json_field_def json_fields_def)

text \<open>
  Claim C6, as the code has it.  When the rasterizer yields no page (\<^verbatim>\<open>pdfToPng\<close> returns
  nothing or an empty array; \<^verbatim>\<open>pdf.js\<close> reports \<^verbatim>\<open>numPages = 0\<close>; \<^verbatim>\<open>pdf.convert\<close> resolves to
  a falsy or empty value), the answer is status 500 with \<^verbatim>\<open>error\<close> \<^verbatim>\<open>PDF conversion failed\<close>
  and \<^verbatim>\<open>message\<close> \<^verbatim>\<open>No pages converted from PDF\<close> (\<^verbatim>\<open>PDF has no pages\<close> in the canvas build).
  Every 500 has that same \<^verbatim>\<open>error\<close> and no kind: the message alone tells the case.
\<close>

theorem no_pages_answer:
  "(req_file req = Some f \<and> truthy (buffer f)
      \<and> (pdfToPng (buffer f) convert_options = Inr None
          \<or> pdfToPng (buffer f) convert_options = Inr (Some [])) \<longrightarrow>
        fst (post_convert pdfToPng req now)
          = conversion_failed ''No pages converted from PDF'' (correlationId req) (now 1 - now 0))
   \<and> (truthy (body req) \<and> js_length (body req) \<noteq> Some 0
      \<and> (pdfToPng (body req) convert_options = Inr None
          \<or> pdfToPng (body req) convert_options = Inr (Some [])) \<longrightarrow>
        fst (post_convert_raw pdfToPng req now)
          = conversion_failed ''No pages converted from PDF'' (correlationId req) (now 1 - now 0))
   \<and> (req_file req = Some f \<and> truthy (buffer f)
      \<and> getDocument lib (buffer f) = Inr pdf \<and> numPages lib pdf = 0 \<longrightarrow>
        fst (fst (post_convert_canvas lib loaded req now))
          = conversion_failed ''PDF has no pages'' (correlationId req) (now 1 - now 0))
   \<and> (req_file req = Some f \<and> truthy (buffer f)
      \<and> writeFileSync fs (tempPdfPath (correlationId req)) (buffer f) = Inr fs1
      \<and> convert fs1 (tempPdfPath (correlationId req))
           (poppler_convert_options (tempOutputDir (correlationId req))) = (Inr r, fs2)
      \<and> (r = Falsy \<or> r = Sized 0) \<longrightarrow>
        fst (fst (post_convert_poppler convert fs req now))
          = conversion_failed ''No pages converted from PDF'' (correlationId req) (now 1 - now 0))
   \<and> (status (fst (post_convert pdfToPng req now)) = 500 \<longrightarrow>
        json_field (fst (post_convert pdfToPng req now)) ''error''
          = Some (JsonString ''PDF conversion failed'')
        \<and> json_field (fst (post_convert pdfToPng req now)) ''kind'' = None)"
proof (intro conjI impI)
  assume "req_file req = Some f \<and> truthy (buffer f)
      \<and> (pdfToPng (buffer f) convert_options = Inr None
          \<or> pdfToPng (buffer f) convert_options = Inr (Some []))"
  then show "fst (post_convert pdfToPng req now)
          = conversion_failed ''No pages converted from PDF'' (correlationId req) (now 1 - now 0)"
    using no_pages_convert [of req f pdfToPng now] by blast
next
  assume "truthy (body req) \<and> js_length (body req) \<noteq> Some 0
      \<and> (pdfToPng (body req) convert_options = Inr None
          \<or> pdfToPng (body req) convert_options = Inr (Some []))"
  then show "fst (post_convert_raw pdfToPng req now)
          = conversion_failed ''No pages converted from PDF'' (correlationId req) (now 1 - now 0)"
    using no_pages_convert_raw [of req pdfToPng now] by blast
next
  assume "req_file req = Some f \<and> truthy (buffer f)
      \<and> getDocument lib (buffer f) = Inr pdf \<and> numPages lib pdf = 0"
  then show "fst (fst (post_convert_canvas lib loaded req now))
          = conversion_failed ''PDF has no pages'' (correlationId req) (now 1 - now 0)"
    using no_pages_canvas [of req f lib pdf loaded now] by blast
next
  assume "req_file req = Some f \<and> truthy (buffer f)
      \<and> writeFileSync fs (tempPdfPath (correlationId req)) (buffer f) = Inr fs1
      \<and> convert fs1 (tempPdfPath (correlationId req))
           (poppler_convert_options (tempOutputDir (correlationId req))) = (Inr r, fs2)
      \<and> (r = Falsy \<or> r = Sized 0)"
  then show "fst (fst (post_convert_poppler convert fs req now))
          = conversion_failed ''No pages converted from PDF'' (correlationId req) (now 1 - now 0)"
    using no_pages_poppler [of req f fs fs1 convert r fs2 now] by blast
next
  assume a: "status (fst (post_convert pdfToPng req now)) = 500"
  show "json_field (fst (post_convert pdfToPng req now)) ''error''
          = Some (JsonString ''PDF conversion failed'')"
    by (rule every_failure_same_error) (rule a)
  from failure_500_fields [OF a] show "json_field (fst (post_convert pdfToPng req now)) ''kind'' = None"
    by (auto simp: json_field_def json_fields_def map_of_eq_None_iff split: payload.splits)
qed

theorem no_pages_answer_witness:
  "req_file example_request = Some \<lparr>buffer = JBuffer [37, 80]\<rparr>
   \<and> truthy (body example_request) \<and> js_length (body example_request) \<noteq> Some 0
   \<and> no_pages_returned (JBuffer [37, 80]) convert_options = Inr (Some [])
   \<and> getDocument blank_pdfjs (JBuffer [37, 80]) = Inr [] \<and> numPages blank_pdfjs [] = 0
   \<and> writeFileSync tmp_only (tempPdfPath (correlationId example_request)) (JBuffer [37, 80])
       = Inr [(''/tmp/abc-123.pdf'', File [37, 80]), (''/tmp'', Dir)]
   \<and> fst (post_convert no_pages_returned example_request int)
       = conversion_failed ''No pages converted from PDF'' ''abc-123'' 1
   \<and> fst (post_convert_raw no_pages_returned example_request int)
       = conversion_failed ''No pages converted from PDF'' ''abc-123'' 1
   \<and> fst (fst (post_convert_canvas blank_pdfjs False example_request int))
       = conversion_failed ''PDF has no pages'' ''abc-123'' 1
   \<and> fst (fst (post_convert_poppler prints_nothing tmp_only example_request int))
       = conversion_failed ''No pages converted from PDF'' ''abc-123'' 1
   \<and> status (fst (post_convert no_pages_returned example_request int)) = 500
   \<and> json_field (fst (post_convert no_pages_returned example_request int)) ''error''
       = Some (JsonString ''PDF conversion failed'')"
proof -
  have w: "writeFileSync tmp_only (tempPdfPath (correlationId example_request)) (JBuffer [37, 80])
       = Inr [(''/tmp/abc-123.pdf'', File [37, 80]), (''/tmp'', Dir)]"
    by (simp add: example_paths example_write)
  have c: "prints_nothing [(''/tmp/abc-123.pdf'', File [37, 80]), (''/tmp'', Dir)]
             (tempPdfPath (correlationId example_request))
             (poppler_convert_options (tempOutputDir (correlationId example_request)))
           = (Inr Falsy, [(''/tmp/abc-123.pdf'', File [37, 80]), (''/tmp'', Dir)])"
    by (simp add: prints_nothing_def)
  have l: "getDocument blank_pdfjs (JBuffer [37, 80]) = Inr []" "numPages blank_pdfjs [] = 0"
    by (simp_all add: blank_pdfjs_def example_pdfjs_def)
  have s: "status (conversion_failed ''No pages converted from PDF'' ''abc-123'' 1) = 500"
    by (simp add: conversion_failed_def res_json_def)
  from no_pages_answer [of example_request "\<lparr>buffer = JBuffer [37, 80]\<rparr>" no_pages_returned int
      blank_pdfjs "[]" False tmp_only "[(''/tmp/abc-123.pdf'', File [37, 80]), (''/tmp'', Dir)]"
      prints_nothing Falsy "[(''/tmp/abc-123.pdf'', File [37, 80]), (''/tmp'', Dir)]"]
    w c l s
  show ?thesis
    by (simp add: example_request_fields example_paths no_pages_returned_def)
       (simp add: conversion_failed_def res_json_def json_field_def)
qed

subsection \<open>Agreement of the two routes\<close>



lemma rejected_no_image: "output_image (fst (rejected code)) = None"
  by (simp add: rejected_def output_image_def)

lemma correlationId_headers:
  "correlationId \<lparr>headers = h, req_file = f, body = b\<rparr> = correlationId \<lparr>headers = h, req_file = None, body = JUndefined\<rparr>"
  by (simp add: correlationId_def)











lemma rejects_nothing: "\<not> rejects_empty_render Inr"
  by (simp add: rejects_empty_render_def)




end
